theory Spec2Isabelle
  imports Main "HOL-Library.Sublist"
begin

section \<open>Directive definitions\<close>

text \<open>
  The embedding follows \<^verbatim>\<open>src/directive-parser.ts\<close>. A JavaScript string is a
  \<^typ>\<open>string\<close>: one list element per code unit, so \<^const>\<open>length\<close> is the
  \<^verbatim>\<open>.length\<close> of the source and offsets index the list. Only code units below
  256 are representable.
\<close>

datatype DirectiveType = Global | Local

datatype DirectiveDefinedIn = FrontMatter | Comment

definition directiveAlwaysAllowed :: "DirectiveDefinedIn list" where
  "directiveAlwaysAllowed = [FrontMatter, Comment]"

datatype DirectiveProvidedBy = Marpit | MarpCore | MarpCLI | MarpVSCode

text \<open>The string value of each enum member, as the template literals interpolate it.\<close>

fun DirectiveProvidedBy_value :: "DirectiveProvidedBy \<Rightarrow> string" where
  "DirectiveProvidedBy_value Marpit = ''Marpit framework''"
| "DirectiveProvidedBy_value MarpCore = ''Marp Core''"
| "DirectiveProvidedBy_value MarpCLI = ''Marp CLI''"
| "DirectiveProvidedBy_value MarpVSCode = ''Marp for VS Code''"

fun DirectiveType_value :: "DirectiveType \<Rightarrow> string" where
  "DirectiveType_value Global = ''Global''"
| "DirectiveType_value Local = ''Local''"

text \<open>\<^verbatim>\<open>info.type.toLowerCase()\<close> on the two enum values.\<close>

fun DirectiveType_toLowerCase :: "DirectiveType \<Rightarrow> string" where
  "DirectiveType_toLowerCase Global = ''global''"
| "DirectiveType_toLowerCase Local = ''local''"

text \<open>
  \<^verbatim>\<open>new MarkdownString(value, supportThemeIcons = false)\<close> of the editor API: the
  two constructor arguments are all the parser gives it.
\<close>

record MarkdownString =
  md_value :: string
  supportThemeIcons :: bool

text \<open>
  The argument of \<^verbatim>\<open>createDirectiveInfo\<close> is a \<^verbatim>\<open>DirectiveInfo\<close> without its two
  markdown fields (the \<^verbatim>\<open>Omit<...>\<close> type of the source); the result adds them.
  An optional property that is absent or \<^verbatim>\<open>undefined\<close> is \<^const>\<open>None\<close>.
\<close>

record DirectiveInfoOmit =
  allowed :: "DirectiveDefinedIn list"
  description :: string
  details :: "string option"
  name :: string
  providedBy :: DirectiveProvidedBy
  type :: DirectiveType
  scoped :: "bool option"

record DirectiveInfo = DirectiveInfoOmit +
  markdownDescription :: MarkdownString
  markdownDetails :: MarkdownString

text \<open>\<^verbatim>\<open>Array.prototype.join\<close> on strings.\<close>

fun join :: "string list \<Rightarrow> string \<Rightarrow> string" where
  "join [] sep = ''''"
| "join [x] sep = x"
| "join (x # y # ys) sep = x @ sep @ join (y # ys) sep"

definition directiveText :: "DirectiveInfoOmit \<Rightarrow> string" where
  "directiveText info =
     ''`'' @ name info @ ''` ['' @ DirectiveType_value (type info) @
     '' directive](https://marpit.marp.app/directives?id='' @
     DirectiveType_toLowerCase (type info) @ ''-directives)'' @
     (if scoped info = Some True then '' _[Scoped]_'' else '''')"

text \<open>A string is truthy when it is not empty.\<close>

definition mdDetails :: "DirectiveInfoOmit \<Rightarrow> string" where
  "mdDetails info =
     ''_Provided by '' @ DirectiveProvidedBy_value (providedBy info) @
     (case details info of
        None \<Rightarrow> ''''
      | Some d \<Rightarrow> if d = [] then '''' else '' ([Show more details...]('' @ d @ ''))'') @
     ''_''"

definition createDirectiveInfo :: "DirectiveInfoOmit \<Rightarrow> DirectiveInfo" where
  "createDirectiveInfo info =
     DirectiveInfoOmit.extend info
       (DirectiveInfo.fields
          \<lparr>md_value =
             join [directiveText info, description info, mdDetails info]
               ''\<newline>\<newline>---\<newline>\<newline>'',
           supportThemeIcons = True\<rparr>
          \<lparr>md_value = mdDetails info, supportThemeIcons = False\<rparr>)"

subsection \<open>The built-in directives\<close>

text \<open>
  The description texts, after \<^verbatim>\<open>dedent\<close> has removed the common indentation of
  the template literal and trimmed it.
\<close>

definition marp_description :: string where
  "marp_description =
     ''Set whether or not enable Marp preview in VS Code extension.''"

definition theme_description :: string where
  "theme_description =
     ''Specify a theme name of the slide deck.\<newline>'' @
     ''\<newline>'' @
     ''## [Marp Core built-in themes](https://github.com/marp-team/marp-core/tree/main/themes)\<newline>'' @
     ''\<newline>'' @
     ''### `default`\<newline>'' @
     ''\<newline>'' @
     ''![](https://user-images.githubusercontent.com/3993388/48039490-53be1b80-e1b8-11e8-8179-0e6c11d285e2.png)\<newline>'' @
     ''\<newline>'' @
     ''### `gaia`\<newline>'' @
     ''\<newline>'' @
     ''![](https://user-images.githubusercontent.com/3993388/48039493-5456b200-e1b8-11e8-9c49-dd5d66d76c0d.png)\<newline>'' @
     ''\<newline>'' @
     ''### `uncover`\<newline>'' @
     ''\<newline>'' @
     ''![](https://user-images.githubusercontent.com/3993388/48039495-5456b200-e1b8-11e8-8c82-ca7f7842b34d.png)''"

definition style_description :: string where
  "style_description =
     ''Specify CSS for tweaking theme.\<newline>'' @
     ''\<newline>'' @
     ''It is exactly same as defining inline style within Markdown. Useful if `<style>` would break the view in the other Markdown tools.\<newline>'' @
     ''\<newline>'' @
     ''```yaml\<newline>'' @
     ''style: |\<newline>'' @
     ''  section {\<newline>'' @
     ''    background-color: #123;\<newline>'' @
     ''    color: #def;\<newline>'' @
     ''  }\<newline>'' @
     ''```''"

definition headingDivider_description :: string where
  "headingDivider_description =
     ''Specify heading divider option.\<newline>'' @
     ''\<newline>'' @
     ''You may instruct to divide slide pages at before of headings automatically. It is useful for making slide from existing Markdown document.\<newline>'' @
     ''\<newline>'' @
     ''It have to specify heading level from 1 to 6, or array of them. This feature is enabled at headings having the level _higher than or equal to the specified value_ if in a number, and it is enabled at _only specified levels_ if in array.\<newline>'' @
     ''\<newline>'' @
     ''```yaml\<newline>'' @
     ''# Divide pages by headings having level 3 and higher (#, ##, ###)\<newline>'' @
     ''headingDivider: 3\<newline>'' @
     ''\<newline>'' @
     ''# Divide pages by only headings having level 1 and 3 (#, ###)\<newline>'' @
     ''headingDivider: [1, 3]\<newline>'' @
     ''```''"

definition paginate_description :: string where
  "paginate_description =
     ''Show page number on the slide if set `true`.''"

definition header_description :: string where
  "header_description =
     ''Specify the content of slide header.\<newline>'' @
     ''\<newline>'' @
     ''The content of header can use basic Markdown formatting. To prevent the broken parsing by YAML special characters, recommend to wrap by quotes `'' @ [CHR 0x22] @ ''` or `'' @ [CHR 0x27] @ ''` when used Markdown syntax:\<newline>'' @
     ''\<newline>'' @
     ''```yaml\<newline>'' @
     ''header: '' @ [CHR 0x22] @ ''**Header content**'' @ [CHR 0x22] @ ''\<newline>'' @
     ''```\<newline>'' @
     ''\<newline>'' @
     ''To clear the header content in the middle of slides, set an empty string:\<newline>'' @
     ''\<newline>'' @
     ''```yaml\<newline>'' @
     ''header: '' @ [CHR 0x22] @ [CHR 0x22] @ ''\<newline>'' @
     ''```''"

definition footer_description :: string where
  "footer_description =
     ''Specify the content of slide footer.\<newline>'' @
     ''\<newline>'' @
     ''The content of footer can use basic Markdown formatting. To prevent the broken parsing by YAML special characters, recommend to wrap by quotes `'' @ [CHR 0x22] @ ''` or `'' @ [CHR 0x27] @ ''` when used Markdown syntax:\<newline>'' @
     ''\<newline>'' @
     ''```yaml\<newline>'' @
     ''footer: '' @ [CHR 0x22] @ ''**Footer content**'' @ [CHR 0x22] @ ''\<newline>'' @
     ''```\<newline>'' @
     ''\<newline>'' @
     ''To clear the footer content in the middle of slides, set an empty string:\<newline>'' @
     ''\<newline>'' @
     ''```yaml\<newline>'' @
     ''footer: '' @ [CHR 0x22] @ [CHR 0x22] @ ''\<newline>'' @
     ''```''"

definition class_description :: string where
  "class_description =
     ''Specify [HTML `class` attribute](https://developer.mozilla.org/en-US/docs/Web/HTML/Global_attributes/class) for the slide element `<section>`.''"

definition backgroundColor_description :: string where
  "backgroundColor_description =
     ''Setting [`background-color` style](https://developer.mozilla.org/en-US/docs/Web/CSS/background-color) of the slide.''"

definition backgroundImage_description :: string where
  "backgroundImage_description =
     ''Setting [`background-image` style](https://developer.mozilla.org/en-US/docs/Web/CSS/background-image) of the slide.''"

definition backgroundPosition_description :: string where
  "backgroundPosition_description =
     ''Setting [`background-position` style](https://developer.mozilla.org/en-US/docs/Web/CSS/background-position) of the slide.''"

definition backgroundRepeat_description :: string where
  "backgroundRepeat_description =
     ''Setting [`background-repeat` style](https://developer.mozilla.org/en-US/docs/Web/CSS/background-repeat) of the slide.''"

definition backgroundSize_description :: string where
  "backgroundSize_description =
     ''Setting [`background-size` style](https://developer.mozilla.org/en-US/docs/Web/CSS/background-size) of the slide.''"

definition color_description :: string where
  "color_description =
     ''Setting [`color` style](https://developer.mozilla.org/en-US/docs/Web/CSS/color) of the slide.''"

definition size_description :: string where
  "size_description =
     ''Choose the slide size preset provided by theme.\<newline>'' @
     ''\<newline>'' @
     ''Accepted presets are depending on using theme. In the case of Marp Core built-in theme, you can choose from `16:9` (1280x720) or `4:3` (960x720).''"

definition title_description :: string where
  "title_description =
     ''Define title of the slide deck.''"

definition description_description :: string where
  "description_description =
     ''Define description of the slide deck.''"

definition url_description :: string where
  "url_description =
     ''Define canonical URL for the slide deck.''"

definition image_description :: string where
  "image_description =
     ''Define Open Graph image URL.''"

definition builtinDirectives :: "DirectiveInfo list" where
  "builtinDirectives =
    [createDirectiveInfo
       \<lparr>allowed = [FrontMatter], description = marp_description,
        details = Some ''https://github.com/marp-team/marp-vscode#usage'',
        name = ''marp'', providedBy = MarpVSCode,
        type = Global, scoped = None\<rparr>,
     createDirectiveInfo
       \<lparr>allowed = directiveAlwaysAllowed, description = theme_description,
        details = Some ''https://marpit.marp.app/directives?id=theme'',
        name = ''theme'', providedBy = Marpit,
        type = Global, scoped = None\<rparr>,
     createDirectiveInfo
       \<lparr>allowed = directiveAlwaysAllowed, description = style_description,
        details = Some ''https://marpit.marp.app/directives?id=tweak-theme-style'',
        name = ''style'', providedBy = Marpit,
        type = Global, scoped = None\<rparr>,
     createDirectiveInfo
       \<lparr>allowed = directiveAlwaysAllowed, description = headingDivider_description,
        details = Some ''https://marpit.marp.app/directives?id=heading-divider'',
        name = ''headingDivider'', providedBy = Marpit,
        type = Global, scoped = None\<rparr>,
     createDirectiveInfo
       \<lparr>allowed = directiveAlwaysAllowed, description = paginate_description,
        details = Some ''https://marpit.marp.app/directives?id=pagination'',
        name = ''paginate'', providedBy = Marpit,
        type = Local, scoped = None\<rparr>,
     createDirectiveInfo
       \<lparr>allowed = directiveAlwaysAllowed, description = header_description,
        details = Some ''https://marpit.marp.app/directives?id=header-and-footer'',
        name = ''header'', providedBy = Marpit,
        type = Local, scoped = None\<rparr>,
     createDirectiveInfo
       \<lparr>allowed = directiveAlwaysAllowed, description = footer_description,
        details = Some ''https://marpit.marp.app/directives?id=header-and-footer'',
        name = ''footer'', providedBy = Marpit,
        type = Local, scoped = None\<rparr>,
     createDirectiveInfo
       \<lparr>allowed = directiveAlwaysAllowed, description = class_description,
        details = Some ''https://marpit.marp.app/directives?id=class'',
        name = ''class'', providedBy = Marpit,
        type = Local, scoped = None\<rparr>,
     createDirectiveInfo
       \<lparr>allowed = directiveAlwaysAllowed, description = backgroundColor_description,
        details = Some ''https://marpit.marp.app/directives?id=backgrounds'',
        name = ''backgroundColor'', providedBy = Marpit,
        type = Local, scoped = None\<rparr>,
     createDirectiveInfo
       \<lparr>allowed = directiveAlwaysAllowed, description = backgroundImage_description,
        details = Some ''https://marpit.marp.app/directives?id=backgrounds'',
        name = ''backgroundImage'', providedBy = Marpit,
        type = Local, scoped = None\<rparr>,
     createDirectiveInfo
       \<lparr>allowed = directiveAlwaysAllowed, description = backgroundPosition_description,
        details = Some ''https://marpit.marp.app/directives?id=backgrounds'',
        name = ''backgroundPosition'', providedBy = Marpit,
        type = Local, scoped = None\<rparr>,
     createDirectiveInfo
       \<lparr>allowed = directiveAlwaysAllowed, description = backgroundRepeat_description,
        details = Some ''https://marpit.marp.app/directives?id=backgrounds'',
        name = ''backgroundRepeat'', providedBy = Marpit,
        type = Local, scoped = None\<rparr>,
     createDirectiveInfo
       \<lparr>allowed = directiveAlwaysAllowed, description = backgroundSize_description,
        details = Some ''https://marpit.marp.app/directives?id=backgrounds'',
        name = ''backgroundSize'', providedBy = Marpit,
        type = Local, scoped = None\<rparr>,
     createDirectiveInfo
       \<lparr>allowed = directiveAlwaysAllowed, description = color_description,
        details = Some ''https://marpit.marp.app/directives?id=backgrounds'',
        name = ''color'', providedBy = Marpit,
        type = Local, scoped = None\<rparr>,
     createDirectiveInfo
       \<lparr>allowed = directiveAlwaysAllowed, description = size_description,
        details = Some ''https://github.com/marp-team/marp-core#size-global-directive'',
        name = ''size'', providedBy = MarpCore,
        type = Global, scoped = None\<rparr>,
     createDirectiveInfo
       \<lparr>allowed = directiveAlwaysAllowed, description = title_description,
        details = Some ''https://github.com/marp-team/marp-cli#metadata'',
        name = ''title'', providedBy = MarpCLI,
        type = Global, scoped = None\<rparr>,
     createDirectiveInfo
       \<lparr>allowed = directiveAlwaysAllowed, description = description_description,
        details = Some ''https://github.com/marp-team/marp-cli#metadata'',
        name = ''description'', providedBy = MarpCLI,
        type = Global, scoped = None\<rparr>,
     createDirectiveInfo
       \<lparr>allowed = directiveAlwaysAllowed, description = url_description,
        details = Some ''https://github.com/marp-team/marp-cli#metadata'',
        name = ''url'', providedBy = MarpCLI,
        type = Global, scoped = None\<rparr>,
     createDirectiveInfo
       \<lparr>allowed = directiveAlwaysAllowed, description = image_description,
        details = Some ''https://github.com/marp-team/marp-cli#metadata'',
        name = ''image'', providedBy = MarpCLI,
        type = Global, scoped = None\<rparr>]"

text \<open>
  The parser object: its only field is the registry, initialised with a copy of the
  built-in list. The source declares no method that adds, removes or checks entries;
  a caller extends the registry by appending to this array.
\<close>

record DirectiveParser =
  directives :: "DirectiveInfo list"

definition new_DirectiveParser :: DirectiveParser where
  "new_DirectiveParser = \<lparr>directives = builtinDirectives\<rparr>"

section \<open>Collaborators\<close>

text \<open>
  The parser calls four things it does not define: the front-matter regular
  expression of \<^verbatim>\<open>./utils\<close>, the Markdown parser (remark), the HTML parser
  (rehype) and the YAML parser. They are parameters of the model; only the parts
  of their results that the parser reads are kept.
\<close>

text \<open>
  The YAML syntax tree in the shape the parser inspects. Under the failsafe schema
  every scalar is a string; a scalar is kept with its \<^verbatim>\<open>value\<close> and its
  \<^verbatim>\<open>range\<close>, the span it has in the parsed text. The \<^verbatim>\<open>items\<close> of a collection
  are pairs, nodes or null: a block sequence entry without content is null, a pair
  written inside a flow sequence is an item of the sequence itself, and both key
  and value of a pair may be null.
\<close>

datatype yaml_node =
    Scalar string "nat \<times> nat"
  | YAMLMap "yaml_item list"
  | YAMLSeq "yaml_item list"
  | Alias
and yaml_item =
    Null_item
  | Pair "yaml_node option" "yaml_node option"
  | Merge_pair
  | Node_item yaml_node

record yaml_document =
  contents :: "yaml_node option"
  errors :: "string list"

text \<open>
  A syntax-tree literal of the Markdown or HTML parser: its text and the offsets
  \<^verbatim>\<open>position.start.offset\<close> and \<^verbatim>\<open>position.end.offset\<close> within the parsed text.
\<close>

record literal_node =
  node_value :: string
  start_offset :: nat
  end_offset :: nat

text \<open>
  A successful \<^verbatim>\<open>markdown.match(frontMatterRegex)\<close>: the index of the match and
  the destructured array \<^verbatim>\<open>[outerBody, open, body, close]\<close>.
\<close>

record fm_match =
  index :: nat
  outerBody :: string
  fm_open :: string
  fm_body :: string
  fm_close :: string

text \<open>
  \<open>parseMd\<close> gives the \<^verbatim>\<open>html\<close> nodes that \<^verbatim>\<open>visit\<close> reaches in the Markdown tree,
  in visiting order, and \<open>parseHtml\<close> the \<^verbatim>\<open>comment\<close> nodes of an HTML fragment.
\<close>

record collaborators =
  frontMatterRegex :: "string \<Rightarrow> fm_match option"
  parseMd :: "string \<Rightarrow> literal_node list"
  parseHtml :: "string \<Rightarrow> literal_node list"
  parseYaml :: "string \<Rightarrow> yaml_document"

section \<open>Events\<close>

text \<open>
  A position of the editor document is identified with the offset it stands for.
  \<^verbatim>\<open>doc.positionAt\<close> adjusts an offset outside the text to the nearest valid one,
  and a range orders its two ends.
\<close>

definition positionAt :: "string \<Rightarrow> int \<Rightarrow> nat" where
  "positionAt doc off = nat (max 0 (min (int (length doc)) off))"

record Range =
  range_start :: nat
  range_end :: nat

definition new_Range :: "nat \<Rightarrow> nat \<Rightarrow> Range" where
  "new_Range a b =
     (if a \<le> b then \<lparr>range_start = a, range_end = b\<rparr>
      else \<lparr>range_start = b, range_end = a\<rparr>)"

record DirectiveEventHandler =
  info :: "DirectiveInfo option"
  item :: yaml_item
  offset :: nat

record DirectiveSectionEventHandler =
  body :: string
  range :: Range

datatype event =
    StartParse string
  | FrontMatterEvent DirectiveSectionEventHandler
  | CommentEvent DirectiveSectionEventHandler
  | DirectiveEvent DirectiveEventHandler
  | EndParse string

datatype js_error = TypeError

text \<open>
  Emission is synchronous, so a run is the list of the events emitted so far and,
  when an exception ended it, the exception.
\<close>

type_synonym run = "event list \<times> js_error option"

record parse_result =
  emitted :: "event list"
  thrown :: "js_error option"

section \<open>The parser\<close>

text \<open>
  \<^verbatim>\<open>item.key.value\<close>: reading a property of null throws; a collection or alias
  used as key has no \<^verbatim>\<open>value\<close> property, which reads as undefined.
\<close>

fun key_value :: "yaml_node option \<Rightarrow> js_error + string option" where
  "key_value None = Inl TypeError"
| "key_value (Some (Scalar s r)) = Inr (Some s)"
| "key_value (Some other) = Inr None"

text \<open>
  \<^verbatim>\<open>this.directives.find(...)\<close> with its callback. The captured variable
  \<^verbatim>\<open>scoped\<close> starts undefined and is assigned only immediately before the callback
  returns true, so the result is the found definition together with the final
  value of \<^verbatim>\<open>scoped\<close>.
\<close>

fun directives_find ::
  "DirectiveDefinedIn \<Rightarrow> yaml_node option \<Rightarrow> DirectiveInfo list
     \<Rightarrow> js_error + (DirectiveInfo option \<times> bool option)" where
  "directives_find definedIn k [] = Inr (None, None)"
| "directives_find definedIn k (d # ds) =
     (if definedIn \<notin> set (allowed d) then directives_find definedIn k ds
      else case key_value k of
        Inl e \<Rightarrow> Inl e
      | Inr v \<Rightarrow>
          if v = Some (name d) then Inr (Some d, None)
          else if type d = Local \<and> v = Some (CHR ''_'' # name d)
            then Inr (Some d, Some True)
          else directives_find definedIn k ds)"

text \<open>
  The constant \<^verbatim>\<open>info\<close>: the found definition rebuilt with the value of
  \<^verbatim>\<open>scoped\<close>. The spread copies every field; \<^verbatim>\<open>createDirectiveInfo\<close> then
  overwrites the two markdown fields.
\<close>

definition directive_info ::
  "DirectiveInfo option \<times> bool option \<Rightarrow> DirectiveInfo option" where
  "directive_info found =
     (case found of
        (None, sc) \<Rightarrow> None
      | (Some directiveInfo, sc) \<Rightarrow>
          Some (createDirectiveInfo
                  ((DirectiveInfoOmit.truncate directiveInfo)\<lparr>scoped := sc\<rparr>)))"

text \<open>
  The loop over \<^verbatim>\<open>contents.items\<close>. Reading \<^verbatim>\<open>item.type\<close> of a null item
  throws; only an item of type \<^verbatim>\<open>PAIR\<close> is looked up and reported.
\<close>

fun detect_items ::
  "DirectiveInfo list \<Rightarrow> nat \<Rightarrow> DirectiveDefinedIn \<Rightarrow> yaml_item list \<Rightarrow> run" where
  "detect_items ds off definedIn [] = ([], None)"
| "detect_items ds off definedIn (Null_item # its) = ([], Some TypeError)"
| "detect_items ds off definedIn (Pair k v # its) =
     (case directives_find definedIn k ds of
        Inl e \<Rightarrow> ([], Some e)
      | Inr found \<Rightarrow>
          (DirectiveEvent
             \<lparr>info = directive_info found, item = Pair k v, offset = off\<rparr>
             # fst (detect_items ds off definedIn its),
           snd (detect_items ds off definedIn its)))"
| "detect_items ds off definedIn (Merge_pair # its) = detect_items ds off definedIn its"
| "detect_items ds off definedIn (Node_item n # its) = detect_items ds off definedIn its"

text \<open>
  \<^verbatim>\<open>contents?.['items']\<close>: absent contents, a scalar and an alias have no
  \<^verbatim>\<open>items\<close>; a mapping and a sequence both have the property, and an array is
  truthy even when empty.
\<close>

fun contents_items :: "yaml_node option \<Rightarrow> yaml_item list option" where
  "contents_items (Some (YAMLMap its)) = Some its"
| "contents_items (Some (YAMLSeq its)) = Some its"
| "contents_items other = None"

definition detectDirectives ::
  "collaborators \<Rightarrow> DirectiveParser \<Rightarrow> string \<Rightarrow> nat \<Rightarrow> DirectiveDefinedIn \<Rightarrow> run" where
  "detectDirectives env this text off definedIn =
     (let doc = parseYaml env text in
      if errors doc = [] then
        (case contents_items (contents doc) of
           None \<Rightarrow> ([], None)
         | Some its \<Rightarrow> detect_items (directives this) off definedIn its)
      else ([], None))"

text \<open>
  The two replacements of the comment callback. \<^verbatim>\<open>replace(/^-*\s*/, '')\<close> removes
  the longest run of \<^verbatim>\<open>-\<close> at the start and then the longest run of white space
  after it. \<^verbatim>\<open>replace(/\s*-*$/, '')\<close> removes the leftmost match, which is the
  longest suffix made of white space followed by \<^verbatim>\<open>-\<close>: the longest run of
  \<^verbatim>\<open>-\<close> at the end and the longest run of white space before it. The white
  space of \<^verbatim>\<open>\s\<close> below code unit 256 is tab, line feed, vertical tab, form feed,
  carriage return, space and no-break space.
\<close>

definition is_dash :: "char \<Rightarrow> bool" where
  "is_dash c = (c = CHR ''-'')"

definition is_space :: "char \<Rightarrow> bool" where
  "is_space c =
     (c = CHR 0x09 \<or> c = CHR 0x0A \<or> c = CHR 0x0B \<or> c = CHR 0x0C \<or> c = CHR 0x0D
      \<or> c = CHR 0x20 \<or> c = CHR 0xA0)"

definition replace_leading :: "string \<Rightarrow> string" where
  "replace_leading s = dropWhile is_space (dropWhile is_dash s)"

definition replace_trailing :: "string \<Rightarrow> string" where
  "replace_trailing s = rev (dropWhile is_space (dropWhile is_dash (rev s)))"

text \<open>The callback for one comment \<open>c\<close> of the HTML node \<open>n\<close>.\<close>

definition visit_comment ::
  "collaborators \<Rightarrow> DirectiveParser \<Rightarrow> string \<Rightarrow> nat \<Rightarrow> literal_node \<Rightarrow> literal_node \<Rightarrow> run" where
  "visit_comment env this doc idx n c =
     (let trimmedLeft = replace_leading (node_value c);
          r = detectDirectives env this (replace_trailing trimmedLeft)
                (idx + start_offset n + start_offset c + 4
                   + (length (node_value c) - length trimmedLeft))
                Comment
      in (CommentEvent
            \<lparr>body = ''<!--'' @ node_value c @ ''-->'',
             range = new_Range (positionAt doc (int idx + int (start_offset n) - 4))
                               (positionAt doc (int idx + int (end_offset n) + 3))\<rparr>
            # fst r,
          snd r))"

text \<open>A visitor runs its callback on each node in turn; an exception ends the walk.\<close>

fun visit :: "('a \<Rightarrow> run) \<Rightarrow> 'a list \<Rightarrow> run" where
  "visit f [] = ([], None)"
| "visit f (x # xs) =
     (case snd (f x) of
        Some e \<Rightarrow> (fst (f x), Some e)
      | None \<Rightarrow> (fst (f x) @ fst (visit f xs), snd (visit f xs)))"

text \<open>
  The front-matter section of \<^verbatim>\<open>parse\<close>: its run, and the values of \<^verbatim>\<open>index\<close> and
  \<^verbatim>\<open>markdown\<close> after it.
\<close>

definition parse_frontMatter ::
  "collaborators \<Rightarrow> DirectiveParser \<Rightarrow> string \<Rightarrow> run \<times> nat \<times> string" where
  "parse_frontMatter env this doc =
     (case frontMatterRegex env doc of
        None \<Rightarrow> (([], None), 0, doc)
      | Some fmMatched \<Rightarrow>
          if index fmMatched = 0 then
            (let idx = length (fm_open fmMatched) + length (fm_body fmMatched)
                         + length (fm_close fmMatched);
                 r = detectDirectives env this (fm_body fmMatched)
                       (length (fm_open fmMatched)) FrontMatter
             in ((FrontMatterEvent
                    \<lparr>body = outerBody fmMatched,
                     range = new_Range (positionAt doc 0) (positionAt doc (int idx))\<rparr>
                    # fst r,
                  snd r),
                 idx, drop idx doc))
          else (([], None), 0, doc))"

text \<open>The HTML-comment section: the nested visits.\<close>

definition parse_comments ::
  "collaborators \<Rightarrow> DirectiveParser \<Rightarrow> string \<Rightarrow> nat \<Rightarrow> string \<Rightarrow> run" where
  "parse_comments env this doc idx markdown =
     visit (\<lambda>n. visit (visit_comment env this doc idx n) (parseHtml env (node_value n)))
       (parseMd env markdown)"

definition parse :: "collaborators \<Rightarrow> DirectiveParser \<Rightarrow> string \<Rightarrow> parse_result" where
  "parse env this doc =
     (case parse_frontMatter env this doc of
        ((evs, Some e), idx, markdown) \<Rightarrow>
          \<lparr>emitted = StartParse doc # evs, thrown = Some e\<rparr>
      | ((evs, None), idx, markdown) \<Rightarrow>
          (case parse_comments env this doc idx markdown of
             (cevs, Some e) \<Rightarrow>
               \<lparr>emitted = StartParse doc # evs @ cevs, thrown = Some e\<rparr>
           | (cevs, None) \<Rightarrow>
               \<lparr>emitted = StartParse doc # evs @ cevs @ [EndParse doc], thrown = None\<rparr>))"

section \<open>Example documents\<close>

text \<open>
  Concrete documents, with what the collaborators return on them: the \<^verbatim>\<open>html\<close>
  nodes of the Markdown parser, the comments of the HTML parser, and the documents
  of the YAML parser under the failsafe schema. On any other text the example
  collaborators find nothing.
\<close>

definition doc_slide :: string where
  "doc_slide = ''# Slide\<newline>\<newline><!-- paginate: true -->\<newline>\<newline>Text\<newline>''"

definition doc_two_keys :: string where
  "doc_two_keys = ''<!--\<newline>theme: gaia\<newline>paginate: true\<newline>-->''"

definition doc_dashes :: string where
  "doc_dashes = ''<!--- theme: gaia ---->''"

definition doc_front :: string where
  "doc_front = ''---\<newline>theme: gaia\<newline>paginate: true\<newline>---\<newline>''"

definition doc_flow_seq :: string where
  "doc_flow_seq = ''<!-- [theme: gaia] -->''"

definition doc_empty_key :: string where
  "doc_empty_key = ''<!-- : gaia -->''"

definition doc_unknown :: string where
  "doc_unknown = ''<!--\<newline>theme: gaia\<newline>customUnknownKey: 1\<newline>-->''"

definition doc_note :: string where
  "doc_note = ''<!-- this is just a note -->''"

definition doc_scenario :: string where
  "doc_scenario =
     ''---\<newline>theme: gaia\<newline>---\<newline># Slide\<newline>\<newline><!-- paginate: true -->\<newline>''"

definition doc_keyless_first :: string where
  "doc_keyless_first = ''<!--\<newline>: gaia\<newline>customUnknownKey: 1\<newline>-->''"

text \<open>
  Modelled from the spec: the front-matter expression is defined in \<^verbatim>\<open>./utils\<close>,
  which is not among the sources. The spec describes the recogniser as matching at
  offset 0 only and as giving the opening delimiter, the body and the closing
  delimiter, the delimiters being lines of three hyphens; in its scenario the block
  of \<^verbatim>\<open>---\<close>, \<^verbatim>\<open>theme: gaia\<close>, \<^verbatim>\<open>---\<close> spans the offsets 0 to 20, so each
  delimiter includes its line break.
\<close>

definition example_frontMatterRegex :: "string \<Rightarrow> fm_match option" where
  "example_frontMatterRegex text =
     (if text = doc_front then
        Some \<lparr>index = 0,
              outerBody = ''---\<newline>theme: gaia\<newline>paginate: true\<newline>---\<newline>'',
              fm_open = ''---\<newline>'',
              fm_body = ''theme: gaia\<newline>paginate: true\<newline>'',
              fm_close = ''---\<newline>''\<rparr>
      else if text = doc_scenario then
        Some \<lparr>index = 0,
              outerBody = ''---\<newline>theme: gaia\<newline>---\<newline>'',
              fm_open = ''---\<newline>'',
              fm_body = ''theme: gaia\<newline>'',
              fm_close = ''---\<newline>''\<rparr>
      else None)"

definition example_parseMd :: "string \<Rightarrow> literal_node list" where
  "example_parseMd text =
     (if text = doc_slide
         \<or> text = ''# Slide\<newline>\<newline><!-- paginate: true -->\<newline>'' then
        [\<lparr>node_value = ''<!-- paginate: true -->'', start_offset = 9, end_offset = 32\<rparr>]
      else if text = doc_two_keys \<or> text = doc_dashes \<or> text = doc_flow_seq
              \<or> text = doc_empty_key \<or> text = doc_unknown \<or> text = doc_note
              \<or> text = doc_keyless_first then
        [\<lparr>node_value = text, start_offset = 0, end_offset = length text\<rparr>]
      else [])"

definition example_parseHtml :: "string \<Rightarrow> literal_node list" where
  "example_parseHtml text =
     (if text = ''<!-- paginate: true -->'' \<or> text = doc_two_keys \<or> text = doc_dashes
         \<or> text = doc_flow_seq \<or> text = doc_empty_key \<or> text = doc_unknown
         \<or> text = doc_note \<or> text = doc_keyless_first then
        [\<lparr>node_value = take (length text - 7) (drop 4 text),
          start_offset = 0, end_offset = length text\<rparr>]
      else [])"

definition example_parseYaml :: "string \<Rightarrow> yaml_document" where
  "example_parseYaml text =
     (if text = ''paginate: true'' then
        \<lparr>contents = Some (YAMLMap
           [Pair (Some (Scalar ''paginate'' (0, 8))) (Some (Scalar ''true'' (10, 14)))]),
         errors = []\<rparr>
      else if text = ''theme: gaia'' \<or> text = ''theme: gaia\<newline>'' then
        \<lparr>contents = Some (YAMLMap
           [Pair (Some (Scalar ''theme'' (0, 5))) (Some (Scalar ''gaia'' (7, 11)))]),
         errors = []\<rparr>
      else if text = ''theme: gaia\<newline>paginate: true''
              \<or> text = ''theme: gaia\<newline>paginate: true\<newline>'' then
        \<lparr>contents = Some (YAMLMap
           [Pair (Some (Scalar ''theme'' (0, 5))) (Some (Scalar ''gaia'' (7, 11))),
            Pair (Some (Scalar ''paginate'' (12, 20))) (Some (Scalar ''true'' (22, 26)))]),
         errors = []\<rparr>
      else if text = ''[theme: gaia]'' then
        \<lparr>contents = Some (YAMLSeq
           [Pair (Some (Scalar ''theme'' (1, 6))) (Some (Scalar ''gaia'' (8, 12)))]),
         errors = []\<rparr>
      else if text = '': gaia'' then
        \<lparr>contents = Some (YAMLMap [Pair None (Some (Scalar ''gaia'' (2, 6)))]),
         errors = []\<rparr>
      else if text = '': gaia\<newline>customUnknownKey: 1'' then
        \<lparr>contents = Some (YAMLMap
           [Pair None (Some (Scalar ''gaia'' (2, 6))),
            Pair (Some (Scalar ''customUnknownKey'' (7, 23))) (Some (Scalar ''1'' (25, 26)))]),
         errors = []\<rparr>
      else if text = ''theme: gaia\<newline>customUnknownKey: 1'' then
        \<lparr>contents = Some (YAMLMap
           [Pair (Some (Scalar ''theme'' (0, 5))) (Some (Scalar ''gaia'' (7, 11))),
            Pair (Some (Scalar ''customUnknownKey'' (12, 28))) (Some (Scalar ''1'' (30, 31)))]),
         errors = []\<rparr>
      else if text = ''this is just a note'' then
        \<lparr>contents = Some (Scalar ''this is just a note'' (0, 19)), errors = []\<rparr>
      else \<lparr>contents = None, errors = []\<rparr>)"

definition example_env :: collaborators where
  "example_env =
     \<lparr>frontMatterRegex = example_frontMatterRegex,
      parseMd = example_parseMd,
      parseHtml = example_parseHtml,
      parseYaml = example_parseYaml\<rparr>"

text \<open>A custom definition named like the scoped form of a built-in one, and a
  second definition named \<^verbatim>\<open>theme\<close>.\<close>

definition custom_underscore_header :: DirectiveInfo where
  "custom_underscore_header =
     createDirectiveInfo
       \<lparr>allowed = directiveAlwaysAllowed, description = ''Custom directive.'',
        details = None, name = ''_header'', providedBy = MarpVSCode,
        type = Global, scoped = None\<rparr>"

definition custom_theme :: DirectiveInfo where
  "custom_theme =
     createDirectiveInfo
       \<lparr>allowed = directiveAlwaysAllowed, description = ''Another theme directive.'',
        details = None, name = ''theme'', providedBy = MarpVSCode,
        type = Global, scoped = None\<rparr>"

section \<open>Properties of the registry and of resolution\<close>

lemma createDirectiveInfo_fields [simp]:
  "allowed (createDirectiveInfo i) = allowed i"
  "name (createDirectiveInfo i) = name i"
  "type (createDirectiveInfo i) = type i"
  "scoped (createDirectiveInfo i) = scoped i"
  by (simp_all add: createDirectiveInfo_def DirectiveInfoOmit.extend_def)

lemma directive_info_None [simp]: "directive_info (None, sc) = None"
  by (simp add: directive_info_def)



lemma truncate_fields [simp]:
  "name (DirectiveInfoOmit.truncate d) = name d"
  "type (DirectiveInfoOmit.truncate d) = type d"
  "allowed (DirectiveInfoOmit.truncate d) = allowed d"
  by (simp_all add: DirectiveInfoOmit.truncate_def)

text \<open>A key that is present never makes the lookup throw.\<close>

lemma directives_find_present:
  "\<exists>found. directives_find definedIn (Some k) ds = Inr found"
  by (induction ds) (cases k; simp)+

text \<open>Definitions that do not match the key are passed over.\<close>

lemma directives_find_skip:
  assumes "\<forall>e\<in>set pre. definedIn \<in> set (allowed e) \<longrightarrow>
             name e \<noteq> k \<and> \<not> (type e = Local \<and> k = CHR ''_'' # name e)"
  shows "directives_find definedIn (Some (Scalar k r)) (pre @ rest) =
         directives_find definedIn (Some (Scalar k r)) rest"
  using assms by (induction pre) auto

lemma directives_find_none:
  assumes "\<forall>e\<in>set ds. definedIn \<in> set (allowed e) \<longrightarrow>
             name e \<noteq> k \<and> \<not> (type e = Local \<and> k = CHR ''_'' # name e)"
  shows "directives_find definedIn (Some (Scalar k r)) ds = Inr (None, None)"
  using directives_find_skip [OF assms, of r "[]"] by simp

text \<open>A key that is present and matches no allowed definition resolves to nothing;
  a key that is not a scalar matches no definition at all.\<close>

lemma directives_find_unmatched:
  assumes "\<forall>s r. kn = Scalar s r \<longrightarrow>
             (\<forall>e\<in>set ds. definedIn \<in> set (allowed e) \<longrightarrow>
                name e \<noteq> s \<and> \<not> (type e = Local \<and> s = CHR ''_'' # name e))"
  shows "directives_find definedIn (Some kn) ds = Inr (None, None)"
proof (cases kn)
  case (Scalar s r)
  with assms show ?thesis by (simp add: directives_find_none)
next
  case (YAMLMap its)
  then show ?thesis by (induction ds) simp_all
next
  case (YAMLSeq its)
  then show ?thesis by (induction ds) simp_all
next
  case Alias
  then show ?thesis by (induction ds) simp_all
qed

text \<open>
  C4. Claimed: every built-in definition allows both contexts. The first entry,
  \<^verbatim>\<open>marp\<close>, is declared with \<^verbatim>\<open>allowed: [DirectiveDefinedIn.FrontMatter]\<close> and so
  does not allow comments.
\<close>

theorem builtin_marp_comment_counterexample:
  "builtinDirectives ! 0 \<in> set builtinDirectives
   \<and> name (builtinDirectives ! 0) = ''marp''
   \<and> Comment \<notin> set (allowed (builtinDirectives ! 0))"
  by (simp add: builtinDirectives_def)

text \<open>
  C4, as the registry is written: \<^verbatim>\<open>marp\<close> allows the front-matter only, and each
  of the other built-in definitions allows both the front-matter and comments.
\<close>

theorem builtin_allowed_contexts:
  "\<forall>d\<in>set builtinDirectives.
     (if name d = ''marp'' then allowed d = [FrontMatter]
      else allowed d = [FrontMatter, Comment])"
  by (simp add: builtinDirectives_def directiveAlwaysAllowed_def)

theorem builtin_allowed_contexts_witness:
  "builtinDirectives ! 1 \<in> set builtinDirectives
   \<and> name (builtinDirectives ! 1) = ''theme''
   \<and> allowed (builtinDirectives ! 1) = [FrontMatter, Comment]"
proof -
  have h: "builtinDirectives ! 1 \<in> set builtinDirectives"
    by (simp add: builtinDirectives_def)
  have n: "name (builtinDirectives ! 1) = ''theme''"
    by (simp add: builtinDirectives_def)
  from builtin_allowed_contexts h n show ?thesis by auto
qed

text \<open>
  C5. Claimed: for every registry, a definition named exactly like the key wins
  over a Local definition matched through the underscore. The lookup is one pass
  in registry order, so with \<^verbatim>\<open>_header\<close> registered after the built-ins the key
  \<^verbatim>\<open>_header\<close> resolves to the built-in \<^verbatim>\<open>header\<close>, scoped.
\<close>

theorem exact_name_precedence_counterexample:
  "directives_find Comment (Some (Scalar ''_header'' (0, 7)))
     (builtinDirectives @ [custom_underscore_header])
     = Inr (Some (builtinDirectives ! 5), Some True)
   \<and> name (builtinDirectives ! 5) = ''header''
   \<and> name custom_underscore_header = ''_header''
   \<and> Comment \<in> set (allowed custom_underscore_header)"
  by (simp add: builtinDirectives_def directiveAlwaysAllowed_def custom_underscore_header_def)

text \<open>
  C5, as the lookup is written: the first definition in registry order that is
  allowed in the context and matches the key, exactly or (being Local) with the
  underscore prefixed, is the result. Within one definition the exact name is
  tested first; a definition named exactly like the key is returned, unscoped,
  when no definition before it matches the key in either way.
\<close>

theorem first_match_in_registry_order:
  assumes "ds = pre @ d # post"
    and "definedIn \<in> set (allowed d)"
    and "\<forall>e\<in>set pre. definedIn \<in> set (allowed e) \<longrightarrow>
           name e \<noteq> k \<and> \<not> (type e = Local \<and> k = CHR ''_'' # name e)"
  shows "(name d = k \<longrightarrow>
            directives_find definedIn (Some (Scalar k r)) ds = Inr (Some d, None))
       \<and> (name d \<noteq> k \<and> type d = Local \<and> k = CHR ''_'' # name d \<longrightarrow>
            directives_find definedIn (Some (Scalar k r)) ds = Inr (Some d, Some True))"
proof -
  have "directives_find definedIn (Some (Scalar k r)) ds =
        directives_find definedIn (Some (Scalar k r)) (d # post)"
    unfolding assms(1) by (rule directives_find_skip [OF assms(3)])
  then show ?thesis using assms(2) by auto
qed

theorem first_match_in_registry_order_witness:
  "directives_find Comment (Some (Scalar ''_header'' (0, 7)))
     (take 5 builtinDirectives @ custom_underscore_header # drop 5 builtinDirectives)
     = Inr (Some custom_underscore_header, None)
   \<and> map name (take 5 builtinDirectives)
       = [''marp'', ''theme'', ''style'', ''headingDivider'', ''paginate'']
   \<and> name (hd (drop 5 builtinDirectives)) = ''header''"
proof -
  have a: "Comment \<in> set (allowed custom_underscore_header)"
    by (simp add: custom_underscore_header_def directiveAlwaysAllowed_def)
  have p: "\<forall>e\<in>set (take 5 builtinDirectives). Comment \<in> set (allowed e) \<longrightarrow>
             name e \<noteq> ''_header'' \<and> \<not> (type e = Local \<and> ''_header'' = CHR ''_'' # name e)"
    by (simp add: builtinDirectives_def)
  have n: "name custom_underscore_header = ''_header''"
    by (simp add: custom_underscore_header_def)
  have "directives_find Comment (Some (Scalar ''_header'' (0, 7)))
     (take 5 builtinDirectives @ custom_underscore_header # drop 5 builtinDirectives)
     = Inr (Some custom_underscore_header, None)"
    using first_match_in_registry_order
            [where post = "drop 5 builtinDirectives" and r = "(0, 7)", OF refl a p] n
    by simp
  then show ?thesis by (simp add: builtinDirectives_def)
qed




section \<open>Properties of the scan\<close>

text \<open>A walk that ends normally has run the callback on every node.\<close>

lemma visit_emits:
  assumes "snd (visit f xs) = None" and "x \<in> set xs"
  shows "set (fst (f x)) \<subseteq> set (fst (visit f xs)) \<and> snd (f x) = None"
  using assms by (induction xs) (auto split: option.splits)


lemma parse_emits_comment:
  assumes "thrown (parse env this doc) = None"
    and "snd (parse_frontMatter env this doc) = (idx, markdown)"
    and "n \<in> set (parseMd env markdown)"
    and "c \<in> set (parseHtml env (node_value n))"
  shows "set (fst (visit_comment env this doc idx n c)) \<subseteq> set (emitted (parse env this doc))"
proof -
  obtain evs r where fm: "parse_frontMatter env this doc = ((evs, r), idx, markdown)"
    using assms(2) by (cases "parse_frontMatter env this doc") auto
  obtain cevs r' where cm: "parse_comments env this doc idx markdown = (cevs, r')"
    by (cases "parse_comments env this doc idx markdown") auto
  from assms(1) fm cm have ok: "r = None" "r' = None"
    and em: "emitted (parse env this doc) = StartParse doc # evs @ cevs @ [EndParse doc]"
    by (auto simp: parse_def split: option.splits)
  let ?inner = "\<lambda>n. visit (visit_comment env this doc idx n) (parseHtml env (node_value n))"
  have outer: "snd (visit ?inner (parseMd env markdown)) = None"
    and cevs: "cevs = fst (visit ?inner (parseMd env markdown))"
    using cm ok by (simp_all add: parse_comments_def)
  from visit_emits [OF outer assms(3)]
  have n_in: "set (fst (?inner n)) \<subseteq> set cevs" and n_ok: "snd (?inner n) = None"
    using cevs by simp_all
  from visit_emits [OF n_ok assms(4)]
  have "set (fst (visit_comment env this doc idx n c)) \<subseteq> set (fst (?inner n))"
    by simp
  with n_in em show ?thesis by auto
qed

text \<open>Every event of the loop reports a pair of the block, at the block's offset.\<close>

lemma detect_items_event:
  assumes "ev \<in> set (fst (detect_items ds off definedIn its))"
  shows "\<exists>k v found. ev = DirectiveEvent
            \<lparr>info = directive_info found, item = Pair k v, offset = off\<rparr>
          \<and> Pair k v \<in> set its \<and> directives_find definedIn k ds = Inr found"
  using assms
  by (induction ds off definedIn its rule: detect_items.induct)
     (auto split: sum.splits)

lemma detectDirectives_event:
  assumes "ev \<in> set (fst (detectDirectives env this text off definedIn))"
  shows "\<exists>k v found its. ev = DirectiveEvent
            \<lparr>info = directive_info found, item = Pair k v, offset = off\<rparr>
          \<and> errors (parseYaml env text) = []
          \<and> contents_items (contents (parseYaml env text)) = Some its
          \<and> Pair k v \<in> set its
          \<and> directives_find definedIn k (directives this) = Inr found"
  using assms detect_items_event
  by (fastforce simp: detectDirectives_def Let_def split: if_splits option.splits)

text \<open>
  A block with parse errors, or whose contents are absent, a scalar or an alias,
  gives no directive event and no exception.
\<close>

lemma detectDirectives_not_collection:
  assumes "errors (parseYaml env text) \<noteq> []
           \<or> contents_items (contents (parseYaml env text)) = None"
  shows "detectDirectives env this text off definedIn = ([], None)"
  using assms by (auto simp: detectDirectives_def Let_def)

text \<open>Items that are neither null nor a pair are passed over.\<close>

lemma detect_items_no_pair:
  assumes "\<forall>it\<in>set its. it = Merge_pair \<or> (\<exists>n. it = Node_item n)"
  shows "detect_items ds off definedIn its = ([], None)"
  using assms by (induction ds off definedIn its rule: detect_items.induct) auto

text \<open>Entries that do not throw, before a given entry, do not stop the loop.\<close>

lemma detect_items_reaches:
  assumes "\<forall>it\<in>set pre. it \<noteq> Null_item \<and> (\<forall>w. it \<noteq> Pair None w)"
  shows "set (fst (detect_items ds off definedIn rest))
           \<subseteq> set (fst (detect_items ds off definedIn (pre @ rest)))"
  using assms
proof (induction pre)
  case Nil
  then show ?case by simp
next
  case (Cons it pre)
  then have IH: "set (fst (detect_items ds off definedIn rest))
           \<subseteq> set (fst (detect_items ds off definedIn (pre @ rest)))"
    by simp
  show ?case
  proof (cases it)
    case Null_item
    with Cons.prems show ?thesis by simp
  next
    case (Pair k v)
    with Cons.prems obtain key where k: "k = Some key" by (cases k) auto
    obtain found where "directives_find definedIn (Some key) ds = Inr found"
      using directives_find_present by blast
    with Pair k IH show ?thesis by auto
  next
    case Merge_pair
    with IH show ?thesis by simp
  next
    case (Node_item n)
    with IH show ?thesis by simp
  qed
qed


section \<open>The scan of the example documents\<close>

lemma example_env_fields:
  "frontMatterRegex example_env = example_frontMatterRegex"
  "parseMd example_env = example_parseMd"
  "parseHtml example_env = example_parseHtml"
  "parseYaml example_env = example_parseYaml"
  by (simp_all add: example_env_def)

lemma find_builtin_theme:
  "directives_find Comment (Some (Scalar ''theme'' r)) builtinDirectives
     = Inr (Some (builtinDirectives ! 1), None)"
  "directives_find FrontMatter (Some (Scalar ''theme'' r)) builtinDirectives
     = Inr (Some (builtinDirectives ! 1), None)"
  by (simp_all add: builtinDirectives_def directiveAlwaysAllowed_def)

lemma find_builtin_paginate:
  "directives_find Comment (Some (Scalar ''paginate'' r)) builtinDirectives
     = Inr (Some (builtinDirectives ! 4), None)"
  "directives_find FrontMatter (Some (Scalar ''paginate'' r)) builtinDirectives
     = Inr (Some (builtinDirectives ! 4), None)"
  by (simp_all add: builtinDirectives_def directiveAlwaysAllowed_def)

lemma find_builtin_unknown:
  "directives_find Comment (Some (Scalar ''customUnknownKey'' r)) builtinDirectives
     = Inr (None, None)"
  by (simp add: builtinDirectives_def directiveAlwaysAllowed_def)

lemma find_builtin_null_key:
  "directives_find Comment None builtinDirectives = Inl TypeError"
  by (simp add: builtinDirectives_def directiveAlwaysAllowed_def)

lemmas find_builtin =
  find_builtin_theme find_builtin_paginate find_builtin_unknown find_builtin_null_key

lemmas detect_defs =
  detectDirectives_def example_env_fields example_parseYaml_def new_DirectiveParser_def

lemma detect_paginate:
  "detectDirectives example_env new_DirectiveParser ''paginate: true'' off Comment
     = ([DirectiveEvent
           \<lparr>info = directive_info (Some (builtinDirectives ! 4), None),
            item = Pair (Some (Scalar ''paginate'' (0, 8))) (Some (Scalar ''true'' (10, 14))),
            offset = off\<rparr>], None)"
  by (simp add: detect_defs find_builtin)

lemma detect_theme:
  "detectDirectives example_env new_DirectiveParser ''theme: gaia'' off Comment
     = ([DirectiveEvent
           \<lparr>info = directive_info (Some (builtinDirectives ! 1), None),
            item = Pair (Some (Scalar ''theme'' (0, 5))) (Some (Scalar ''gaia'' (7, 11))),
            offset = off\<rparr>], None)"
  by (simp add: detect_defs find_builtin)

lemma detect_two_keys:
  "detectDirectives example_env new_DirectiveParser ''theme: gaia\<newline>paginate: true'' off Comment
     = ([DirectiveEvent
           \<lparr>info = directive_info (Some (builtinDirectives ! 1), None),
            item = Pair (Some (Scalar ''theme'' (0, 5))) (Some (Scalar ''gaia'' (7, 11))),
            offset = off\<rparr>,
         DirectiveEvent
           \<lparr>info = directive_info (Some (builtinDirectives ! 4), None),
            item = Pair (Some (Scalar ''paginate'' (12, 20))) (Some (Scalar ''true'' (22, 26))),
            offset = off\<rparr>], None)"
  by (simp add: detect_defs find_builtin)


lemma detect_flow_seq:
  "detectDirectives example_env new_DirectiveParser ''[theme: gaia]'' off Comment
     = ([DirectiveEvent
           \<lparr>info = directive_info (Some (builtinDirectives ! 1), None),
            item = Pair (Some (Scalar ''theme'' (1, 6))) (Some (Scalar ''gaia'' (8, 12))),
            offset = off\<rparr>], None)"
  by (simp add: detect_defs find_builtin)

lemma detect_empty_key:
  "detectDirectives example_env new_DirectiveParser '': gaia'' off Comment
     = ([], Some TypeError)"
  by (simp add: detect_defs find_builtin)

lemma detect_unknown:
  "detectDirectives example_env new_DirectiveParser ''theme: gaia\<newline>customUnknownKey: 1'' off
      Comment
     = ([DirectiveEvent
           \<lparr>info = directive_info (Some (builtinDirectives ! 1), None),
            item = Pair (Some (Scalar ''theme'' (0, 5))) (Some (Scalar ''gaia'' (7, 11))),
            offset = off\<rparr>,
         DirectiveEvent
           \<lparr>info = None,
            item = Pair (Some (Scalar ''customUnknownKey'' (12, 28)))
                     (Some (Scalar ''1'' (30, 31))),
            offset = off\<rparr>], None)"
  by (simp add: detect_defs find_builtin)

lemma detect_note:
  "detectDirectives example_env new_DirectiveParser ''this is just a note'' off Comment
     = ([], None)"
  by (simp add: detect_defs)

lemma detect_scenario_body:
  "detectDirectives example_env new_DirectiveParser ''theme: gaia\<newline>'' off FrontMatter
     = ([DirectiveEvent
           \<lparr>info = directive_info (Some (builtinDirectives ! 1), None),
            item = Pair (Some (Scalar ''theme'' (0, 5))) (Some (Scalar ''gaia'' (7, 11))),
            offset = off\<rparr>], None)"
  by (simp add: detect_defs find_builtin)

lemma detect_keyless_first:
  "detectDirectives example_env new_DirectiveParser '': gaia\<newline>customUnknownKey: 1'' off
      Comment
     = ([], Some TypeError)"
  by (simp add: detect_defs find_builtin)

lemmas detect_examples =
  detect_paginate detect_theme detect_two_keys detect_flow_seq detect_empty_key
  detect_unknown detect_note detect_keyless_first

lemmas comment_defs =
  visit_comment_def replace_leading_def replace_trailing_def is_dash_def is_space_def
  positionAt_def new_Range_def Let_def

lemma no_front_matter:
  assumes "doc \<noteq> doc_front" and "doc \<noteq> doc_scenario"
  shows "parse_frontMatter example_env this doc = (([], None), 0, doc)"
  using assms by (simp add: parse_frontMatter_def example_env_fields example_frontMatterRegex_def)

text \<open>A document that is one HTML node holding one comment.\<close>

lemma parse_single_comment:
  assumes "parse_frontMatter env this doc = (([], None), 0, doc)"
    and "parseMd env doc = [n]"
    and "parseHtml env (node_value n) = [c]"
    and "visit_comment env this doc 0 n c = (evs, r)"
  shows "parse env this doc =
         (case r of
            None \<Rightarrow> \<lparr>emitted = StartParse doc # evs @ [EndParse doc], thrown = None\<rparr>
          | Some e \<Rightarrow> \<lparr>emitted = StartParse doc # evs, thrown = Some e\<rparr>)"
  using assms by (simp add: parse_def parse_comments_def split: option.splits)

lemma parse_doc_slide:
  "parse example_env new_DirectiveParser doc_slide
    = \<lparr>emitted =
         [StartParse doc_slide,
          CommentEvent \<lparr>body = ''<!-- paginate: true -->'',
                        range = \<lparr>range_start = 5, range_end = 35\<rparr>\<rparr>,
          DirectiveEvent
            \<lparr>info = directive_info (Some (builtinDirectives ! 4), None),
             item = Pair (Some (Scalar ''paginate'' (0, 8))) (Some (Scalar ''true'' (10, 14))),
             offset = 14\<rparr>,
          EndParse doc_slide],
       thrown = None\<rparr>"
proof -
  let ?n = "\<lparr>node_value = ''<!-- paginate: true -->'', start_offset = 9, end_offset = 32\<rparr>"
  let ?c = "\<lparr>node_value = '' paginate: true '', start_offset = 0, end_offset = 23\<rparr>"
  have fm: "parse_frontMatter example_env new_DirectiveParser doc_slide
              = (([], None), 0, doc_slide)"
    by (rule no_front_matter) (simp_all add: doc_slide_def doc_front_def doc_scenario_def)
  have md: "parseMd example_env doc_slide = [?n]"
    by (simp add: example_env_fields example_parseMd_def)
  have html: "parseHtml example_env (node_value ?n) = [?c]"
    by (simp add: example_env_fields example_parseHtml_def)
  have cm: "visit_comment example_env new_DirectiveParser doc_slide 0 ?n ?c
    = ([CommentEvent \<lparr>body = ''<!-- paginate: true -->'',
                      range = \<lparr>range_start = 5, range_end = 35\<rparr>\<rparr>,
        DirectiveEvent
           \<lparr>info = directive_info (Some (builtinDirectives ! 4), None),
            item = Pair (Some (Scalar ''paginate'' (0, 8))) (Some (Scalar ''true'' (10, 14))),
            offset = 14\<rparr>], None)"
    by (simp add: comment_defs doc_slide_def detect_examples)
  from parse_single_comment [OF fm md html cm] show ?thesis by simp
qed


lemmas example_docs =
  doc_slide_def doc_two_keys_def doc_dashes_def doc_front_def doc_flow_seq_def
  doc_empty_key_def doc_unknown_def doc_note_def doc_scenario_def doc_keyless_first_def

lemma parse_doc_two_keys:
  "parse example_env new_DirectiveParser doc_two_keys
    = \<lparr>emitted =
         [StartParse doc_two_keys,
          CommentEvent \<lparr>body = ''<!--\<newline>theme: gaia\<newline>paginate: true\<newline>-->'',
                        range = \<lparr>range_start = 0, range_end = 35\<rparr>\<rparr>,
          DirectiveEvent
            \<lparr>info = directive_info (Some (builtinDirectives ! 1), None),
             item = Pair (Some (Scalar ''theme'' (0, 5))) (Some (Scalar ''gaia'' (7, 11))),
             offset = 5\<rparr>,
          DirectiveEvent
            \<lparr>info = directive_info (Some (builtinDirectives ! 4), None),
             item = Pair (Some (Scalar ''paginate'' (12, 20))) (Some (Scalar ''true'' (22, 26))),
             offset = 5\<rparr>,
          EndParse doc_two_keys],
       thrown = None\<rparr>"
proof -
  let ?n = "\<lparr>node_value = doc_two_keys, start_offset = 0, end_offset = 35\<rparr>"
  let ?c = "\<lparr>node_value = ''\<newline>theme: gaia\<newline>paginate: true\<newline>'', start_offset = 0, end_offset = 35\<rparr>"
  have fm: "parse_frontMatter example_env new_DirectiveParser doc_two_keys
              = (([], None), 0, doc_two_keys)"
    by (rule no_front_matter) (simp_all add: doc_two_keys_def doc_front_def doc_scenario_def)
  have md: "parseMd example_env doc_two_keys = [?n]"
    by (simp add: example_env_fields example_parseMd_def example_docs)
  have html: "parseHtml example_env (node_value ?n) = [?c]"
    by (simp add: example_env_fields example_parseHtml_def example_docs)
  have cm: "visit_comment example_env new_DirectiveParser doc_two_keys 0 ?n ?c
    = ([CommentEvent \<lparr>body = ''<!--\<newline>theme: gaia\<newline>paginate: true\<newline>-->'',
                        range = \<lparr>range_start = 0, range_end = 35\<rparr>\<rparr>,
          DirectiveEvent
            \<lparr>info = directive_info (Some (builtinDirectives ! 1), None),
             item = Pair (Some (Scalar ''theme'' (0, 5))) (Some (Scalar ''gaia'' (7, 11))),
             offset = 5\<rparr>,
          DirectiveEvent
            \<lparr>info = directive_info (Some (builtinDirectives ! 4), None),
             item = Pair (Some (Scalar ''paginate'' (12, 20))) (Some (Scalar ''true'' (22, 26))),
             offset = 5\<rparr>],
       None)"
    by (simp add: comment_defs doc_two_keys_def detect_examples)
  from parse_single_comment [OF fm md html cm] show ?thesis by simp
qed

lemma parse_doc_dashes:
  "parse example_env new_DirectiveParser doc_dashes
    = \<lparr>emitted =
         [StartParse doc_dashes,
          CommentEvent \<lparr>body = ''<!--- theme: gaia ---->'',
                        range = \<lparr>range_start = 0, range_end = 23\<rparr>\<rparr>,
          DirectiveEvent
            \<lparr>info = directive_info (Some (builtinDirectives ! 1), None),
             item = Pair (Some (Scalar ''theme'' (0, 5))) (Some (Scalar ''gaia'' (7, 11))),
             offset = 6\<rparr>,
          EndParse doc_dashes],
       thrown = None\<rparr>"
proof -
  let ?n = "\<lparr>node_value = doc_dashes, start_offset = 0, end_offset = 23\<rparr>"
  let ?c = "\<lparr>node_value = ''- theme: gaia --'', start_offset = 0, end_offset = 23\<rparr>"
  have fm: "parse_frontMatter example_env new_DirectiveParser doc_dashes
              = (([], None), 0, doc_dashes)"
    by (rule no_front_matter) (simp_all add: doc_dashes_def doc_front_def doc_scenario_def)
  have md: "parseMd example_env doc_dashes = [?n]"
    by (simp add: example_env_fields example_parseMd_def example_docs)
  have html: "parseHtml example_env (node_value ?n) = [?c]"
    by (simp add: example_env_fields example_parseHtml_def example_docs)
  have cm: "visit_comment example_env new_DirectiveParser doc_dashes 0 ?n ?c
    = ([CommentEvent \<lparr>body = ''<!--- theme: gaia ---->'',
                        range = \<lparr>range_start = 0, range_end = 23\<rparr>\<rparr>,
          DirectiveEvent
            \<lparr>info = directive_info (Some (builtinDirectives ! 1), None),
             item = Pair (Some (Scalar ''theme'' (0, 5))) (Some (Scalar ''gaia'' (7, 11))),
             offset = 6\<rparr>],
       None)"
    by (simp add: comment_defs doc_dashes_def detect_examples)
  from parse_single_comment [OF fm md html cm] show ?thesis by simp
qed

lemma parse_doc_flow_seq:
  "parse example_env new_DirectiveParser doc_flow_seq
    = \<lparr>emitted =
         [StartParse doc_flow_seq,
          CommentEvent \<lparr>body = ''<!-- [theme: gaia] -->'',
                        range = \<lparr>range_start = 0, range_end = 22\<rparr>\<rparr>,
          DirectiveEvent
            \<lparr>info = directive_info (Some (builtinDirectives ! 1), None),
             item = Pair (Some (Scalar ''theme'' (1, 6))) (Some (Scalar ''gaia'' (8, 12))),
             offset = 5\<rparr>,
          EndParse doc_flow_seq],
       thrown = None\<rparr>"
proof -
  let ?n = "\<lparr>node_value = doc_flow_seq, start_offset = 0, end_offset = 22\<rparr>"
  let ?c = "\<lparr>node_value = '' [theme: gaia] '', start_offset = 0, end_offset = 22\<rparr>"
  have fm: "parse_frontMatter example_env new_DirectiveParser doc_flow_seq
              = (([], None), 0, doc_flow_seq)"
    by (rule no_front_matter) (simp_all add: doc_flow_seq_def doc_front_def doc_scenario_def)
  have md: "parseMd example_env doc_flow_seq = [?n]"
    by (simp add: example_env_fields example_parseMd_def example_docs)
  have html: "parseHtml example_env (node_value ?n) = [?c]"
    by (simp add: example_env_fields example_parseHtml_def example_docs)
  have cm: "visit_comment example_env new_DirectiveParser doc_flow_seq 0 ?n ?c
    = ([CommentEvent \<lparr>body = ''<!-- [theme: gaia] -->'',
                        range = \<lparr>range_start = 0, range_end = 22\<rparr>\<rparr>,
          DirectiveEvent
            \<lparr>info = directive_info (Some (builtinDirectives ! 1), None),
             item = Pair (Some (Scalar ''theme'' (1, 6))) (Some (Scalar ''gaia'' (8, 12))),
             offset = 5\<rparr>],
       None)"
    by (simp add: comment_defs doc_flow_seq_def detect_examples)
  from parse_single_comment [OF fm md html cm] show ?thesis by simp
qed

lemma parse_doc_empty_key:
  "parse example_env new_DirectiveParser doc_empty_key
    = \<lparr>emitted =
         [StartParse doc_empty_key,
          CommentEvent \<lparr>body = ''<!-- : gaia -->'',
                        range = \<lparr>range_start = 0, range_end = 15\<rparr>\<rparr>],
       thrown = Some TypeError\<rparr>"
proof -
  let ?n = "\<lparr>node_value = doc_empty_key, start_offset = 0, end_offset = 15\<rparr>"
  let ?c = "\<lparr>node_value = '' : gaia '', start_offset = 0, end_offset = 15\<rparr>"
  have fm: "parse_frontMatter example_env new_DirectiveParser doc_empty_key
              = (([], None), 0, doc_empty_key)"
    by (rule no_front_matter) (simp_all add: doc_empty_key_def doc_front_def doc_scenario_def)
  have md: "parseMd example_env doc_empty_key = [?n]"
    by (simp add: example_env_fields example_parseMd_def example_docs)
  have html: "parseHtml example_env (node_value ?n) = [?c]"
    by (simp add: example_env_fields example_parseHtml_def example_docs)
  have cm: "visit_comment example_env new_DirectiveParser doc_empty_key 0 ?n ?c
    = ([CommentEvent \<lparr>body = ''<!-- : gaia -->'',
                        range = \<lparr>range_start = 0, range_end = 15\<rparr>\<rparr>],
       Some TypeError)"
    by (simp add: comment_defs doc_empty_key_def detect_examples)
  from parse_single_comment [OF fm md html cm] show ?thesis by simp
qed

lemma parse_doc_unknown:
  "parse example_env new_DirectiveParser doc_unknown
    = \<lparr>emitted =
         [StartParse doc_unknown,
          CommentEvent \<lparr>body = ''<!--\<newline>theme: gaia\<newline>customUnknownKey: 1\<newline>-->'',
                        range = \<lparr>range_start = 0, range_end = 40\<rparr>\<rparr>,
          DirectiveEvent
            \<lparr>info = directive_info (Some (builtinDirectives ! 1), None),
             item = Pair (Some (Scalar ''theme'' (0, 5))) (Some (Scalar ''gaia'' (7, 11))),
             offset = 5\<rparr>,
          DirectiveEvent
            \<lparr>info = None,
             item = Pair (Some (Scalar ''customUnknownKey'' (12, 28))) (Some (Scalar ''1'' (30, 31))),
             offset = 5\<rparr>,
          EndParse doc_unknown],
       thrown = None\<rparr>"
proof -
  let ?n = "\<lparr>node_value = doc_unknown, start_offset = 0, end_offset = 40\<rparr>"
  let ?c = "\<lparr>node_value = ''\<newline>theme: gaia\<newline>customUnknownKey: 1\<newline>'', start_offset = 0, end_offset = 40\<rparr>"
  have fm: "parse_frontMatter example_env new_DirectiveParser doc_unknown
              = (([], None), 0, doc_unknown)"
    by (rule no_front_matter) (simp_all add: doc_unknown_def doc_front_def doc_scenario_def)
  have md: "parseMd example_env doc_unknown = [?n]"
    by (simp add: example_env_fields example_parseMd_def example_docs)
  have html: "parseHtml example_env (node_value ?n) = [?c]"
    by (simp add: example_env_fields example_parseHtml_def example_docs)
  have cm: "visit_comment example_env new_DirectiveParser doc_unknown 0 ?n ?c
    = ([CommentEvent \<lparr>body = ''<!--\<newline>theme: gaia\<newline>customUnknownKey: 1\<newline>-->'',
                        range = \<lparr>range_start = 0, range_end = 40\<rparr>\<rparr>,
          DirectiveEvent
            \<lparr>info = directive_info (Some (builtinDirectives ! 1), None),
             item = Pair (Some (Scalar ''theme'' (0, 5))) (Some (Scalar ''gaia'' (7, 11))),
             offset = 5\<rparr>,
          DirectiveEvent
            \<lparr>info = None,
             item = Pair (Some (Scalar ''customUnknownKey'' (12, 28))) (Some (Scalar ''1'' (30, 31))),
             offset = 5\<rparr>],
       None)"
    by (simp add: comment_defs doc_unknown_def detect_examples)
  from parse_single_comment [OF fm md html cm] show ?thesis by simp
qed

lemma parse_doc_note:
  "parse example_env new_DirectiveParser doc_note
    = \<lparr>emitted =
         [StartParse doc_note,
          CommentEvent \<lparr>body = ''<!-- this is just a note -->'',
                        range = \<lparr>range_start = 0, range_end = 28\<rparr>\<rparr>,
          EndParse doc_note],
       thrown = None\<rparr>"
proof -
  let ?n = "\<lparr>node_value = doc_note, start_offset = 0, end_offset = 28\<rparr>"
  let ?c = "\<lparr>node_value = '' this is just a note '', start_offset = 0, end_offset = 28\<rparr>"
  have fm: "parse_frontMatter example_env new_DirectiveParser doc_note
              = (([], None), 0, doc_note)"
    by (rule no_front_matter) (simp_all add: doc_note_def doc_front_def doc_scenario_def)
  have md: "parseMd example_env doc_note = [?n]"
    by (simp add: example_env_fields example_parseMd_def example_docs)
  have html: "parseHtml example_env (node_value ?n) = [?c]"
    by (simp add: example_env_fields example_parseHtml_def example_docs)
  have cm: "visit_comment example_env new_DirectiveParser doc_note 0 ?n ?c
    = ([CommentEvent \<lparr>body = ''<!-- this is just a note -->'',
                        range = \<lparr>range_start = 0, range_end = 28\<rparr>\<rparr>],
       None)"
    by (simp add: comment_defs doc_note_def detect_examples)
  from parse_single_comment [OF fm md html cm] show ?thesis by simp
qed


lemma parse_doc_keyless_first:
  "parse example_env new_DirectiveParser doc_keyless_first
    = \<lparr>emitted =
         [StartParse doc_keyless_first,
          CommentEvent \<lparr>body = ''<!--\<newline>: gaia\<newline>customUnknownKey: 1\<newline>-->'',
                        range = \<lparr>range_start = 0, range_end = 35\<rparr>\<rparr>],
       thrown = Some TypeError\<rparr>"
proof -
  let ?n = "\<lparr>node_value = doc_keyless_first, start_offset = 0, end_offset = 35\<rparr>"
  let ?c = "\<lparr>node_value = ''\<newline>: gaia\<newline>customUnknownKey: 1\<newline>'',
            start_offset = 0, end_offset = 35\<rparr>"
  have fm: "parse_frontMatter example_env new_DirectiveParser doc_keyless_first
              = (([], None), 0, doc_keyless_first)"
    by (rule no_front_matter)
       (simp_all add: doc_keyless_first_def doc_front_def doc_scenario_def)
  have md: "parseMd example_env doc_keyless_first = [?n]"
    by (simp add: example_env_fields example_parseMd_def example_docs)
  have html: "parseHtml example_env (node_value ?n) = [?c]"
    by (simp add: example_env_fields example_parseHtml_def example_docs)
  have cm: "visit_comment example_env new_DirectiveParser doc_keyless_first 0 ?n ?c
    = ([CommentEvent \<lparr>body = ''<!--\<newline>: gaia\<newline>customUnknownKey: 1\<newline>-->'',
                        range = \<lparr>range_start = 0, range_end = 35\<rparr>\<rparr>],
       Some TypeError)"
    by (simp add: comment_defs doc_keyless_first_def detect_examples)
  from parse_single_comment [OF fm md html cm] show ?thesis by simp
qed

text \<open>The scenario of the spec: a front-matter, a heading and a comment.\<close>

lemma frontMatter_doc_scenario:
  "parse_frontMatter example_env new_DirectiveParser doc_scenario
    = (([FrontMatterEvent
           \<lparr>body = ''---\<newline>theme: gaia\<newline>---\<newline>'',
            range = \<lparr>range_start = 0, range_end = 20\<rparr>\<rparr>,
         DirectiveEvent
           \<lparr>info = directive_info (Some (builtinDirectives ! 1), None),
            item = Pair (Some (Scalar ''theme'' (0, 5))) (Some (Scalar ''gaia'' (7, 11))),
            offset = 4\<rparr>], None),
       20, ''# Slide\<newline>\<newline><!-- paginate: true -->\<newline>'')"
  by (simp add: parse_frontMatter_def example_env_fields example_frontMatterRegex_def
        doc_front_def doc_scenario_def positionAt_def new_Range_def Let_def
        detect_scenario_body)

lemma comment_doc_scenario:
  "visit_comment example_env new_DirectiveParser doc_scenario 20
     \<lparr>node_value = ''<!-- paginate: true -->'', start_offset = 9, end_offset = 32\<rparr>
     \<lparr>node_value = '' paginate: true '', start_offset = 0, end_offset = 23\<rparr>
    = ([CommentEvent \<lparr>body = ''<!-- paginate: true -->'',
                      range = \<lparr>range_start = 25, range_end = 53\<rparr>\<rparr>,
        DirectiveEvent
          \<lparr>info = directive_info (Some (builtinDirectives ! 4), None),
           item = Pair (Some (Scalar ''paginate'' (0, 8))) (Some (Scalar ''true'' (10, 14))),
           offset = 34\<rparr>], None)"
  by (simp add: comment_defs doc_scenario_def detect_examples)

lemma parse_doc_scenario:
  "parse example_env new_DirectiveParser doc_scenario
    = \<lparr>emitted =
         [StartParse doc_scenario,
          FrontMatterEvent
            \<lparr>body = ''---\<newline>theme: gaia\<newline>---\<newline>'',
             range = \<lparr>range_start = 0, range_end = 20\<rparr>\<rparr>,
          DirectiveEvent
            \<lparr>info = directive_info (Some (builtinDirectives ! 1), None),
             item = Pair (Some (Scalar ''theme'' (0, 5))) (Some (Scalar ''gaia'' (7, 11))),
             offset = 4\<rparr>,
          CommentEvent \<lparr>body = ''<!-- paginate: true -->'',
                        range = \<lparr>range_start = 25, range_end = 53\<rparr>\<rparr>,
          DirectiveEvent
            \<lparr>info = directive_info (Some (builtinDirectives ! 4), None),
             item = Pair (Some (Scalar ''paginate'' (0, 8))) (Some (Scalar ''true'' (10, 14))),
             offset = 34\<rparr>,
          EndParse doc_scenario],
       thrown = None\<rparr>"
proof -
  let ?n = "\<lparr>node_value = ''<!-- paginate: true -->'', start_offset = 9, end_offset = 32\<rparr>"
  let ?c = "\<lparr>node_value = '' paginate: true '', start_offset = 0, end_offset = 23\<rparr>"
  have md: "parseMd example_env ''# Slide\<newline>\<newline><!-- paginate: true -->\<newline>'' = [?n]"
    by (simp add: example_env_fields example_parseMd_def)
  have html: "parseHtml example_env ''<!-- paginate: true -->'' = [?c]"
    by (simp add: example_env_fields example_parseHtml_def)
  have cm: "parse_comments example_env new_DirectiveParser doc_scenario 20
              ''# Slide\<newline>\<newline><!-- paginate: true -->\<newline>''
    = ([CommentEvent \<lparr>body = ''<!-- paginate: true -->'',
                      range = \<lparr>range_start = 25, range_end = 53\<rparr>\<rparr>,
        DirectiveEvent
          \<lparr>info = directive_info (Some (builtinDirectives ! 4), None),
           item = Pair (Some (Scalar ''paginate'' (0, 8))) (Some (Scalar ''true'' (10, 14))),
           offset = 34\<rparr>], None)"
    unfolding parse_comments_def md by (simp add: html comment_doc_scenario)
  show ?thesis unfolding parse_def frontMatter_doc_scenario by (simp add: cm)
qed

text \<open>
  C1. Claimed: the range of a comment event covers exactly the text of the comment.
  In the document \<^verbatim>\<open># Slide\<close>, blank line, \<^verbatim>\<open><!-- paginate: true -->\<close>, blank line,
  \<^verbatim>\<open>Text\<close>, the comment occupies the offsets 9 to 32. The range is computed from
  the start and end of the enclosing HTML node, moved outwards by 4 and by 3, and
  is 5 to 35: it begins inside the heading and ends inside the next paragraph.
\<close>

theorem comment_range_slide_document:
  "emitted (parse example_env new_DirectiveParser doc_slide) ! 1
     = CommentEvent \<lparr>body = ''<!-- paginate: true -->'',
                      range = \<lparr>range_start = 5, range_end = 35\<rparr>\<rparr>
   \<and> take (32 - 9) (drop 9 doc_slide) = ''<!-- paginate: true -->''
   \<and> take (35 - 5) (drop 5 doc_slide) = ''de\<newline>\<newline><!-- paginate: true -->\<newline>\<newline>T''
   \<and> thrown (parse example_env new_DirectiveParser doc_slide) = None"
  unfolding parse_doc_slide by (simp add: doc_slide_def)




text \<open>
  C7. Claimed: a block whose parsed result is not a mapping gives no directive
  event. The parser tests the contents for an \<^verbatim>\<open>items\<close> property and then treats
  them as a mapping; a sequence has the property too. For the comment
  \<^verbatim>\<open><!-- [theme: gaia] -->\<close> the contents are a flow sequence whose one item is a
  pair, and a directive event for \<^verbatim>\<open>theme\<close> is emitted.
\<close>

theorem flow_sequence_pair_reported:
  "contents (parseYaml example_env ''[theme: gaia]'')
     = Some (YAMLSeq [Pair (Some (Scalar ''theme'' (1, 6))) (Some (Scalar ''gaia'' (8, 12)))])
   \<and> parse example_env new_DirectiveParser doc_flow_seq
     = \<lparr>emitted =
          [StartParse doc_flow_seq,
           CommentEvent \<lparr>body = ''<!-- [theme: gaia] -->'',
                         range = \<lparr>range_start = 0, range_end = 22\<rparr>\<rparr>,
           DirectiveEvent
             \<lparr>info = directive_info (Some (builtinDirectives ! 1), None),
              item = Pair (Some (Scalar ''theme'' (1, 6))) (Some (Scalar ''gaia'' (8, 12))),
              offset = 5\<rparr>,
           EndParse doc_flow_seq],
        thrown = None\<rparr>
   \<and> name (builtinDirectives ! 1) = ''theme''"
  unfolding parse_doc_flow_seq
  by (simp add: example_env_fields example_parseYaml_def builtinDirectives_def)

text \<open>
  C9. Claimed: every pair of a valid mapping block whose key matches no definition
  is reported, with no definition. The comment with the two lines \<^verbatim>\<open>: gaia\<close> and
  \<^verbatim>\<open>customUnknownKey: 1\<close> parses without errors to a mapping of two pairs, the
  first with a null key. The key \<^verbatim>\<open>customUnknownKey\<close> matches no definition, but
  the scan throws on the first pair and no directive event is emitted for the
  second.
\<close>

theorem unknown_key_after_null_key:
  "errors (parseYaml example_env '': gaia\<newline>customUnknownKey: 1'') = []
   \<and> contents (parseYaml example_env '': gaia\<newline>customUnknownKey: 1'')
     = Some (YAMLMap
         [Pair None (Some (Scalar ''gaia'' (2, 6))),
          Pair (Some (Scalar ''customUnknownKey'' (7, 23))) (Some (Scalar ''1'' (25, 26)))])
   \<and> directives_find Comment (Some (Scalar ''customUnknownKey'' (7, 23)))
         (directives new_DirectiveParser)
     = Inr (None, None)
   \<and> detectDirectives example_env new_DirectiveParser
         '': gaia\<newline>customUnknownKey: 1'' 5 Comment
     = ([], Some TypeError)
   \<and> parse example_env new_DirectiveParser doc_keyless_first
     = \<lparr>emitted =
          [StartParse doc_keyless_first,
           CommentEvent \<lparr>body = ''<!--\<newline>: gaia\<newline>customUnknownKey: 1\<newline>-->'',
                         range = \<lparr>range_start = 0, range_end = 35\<rparr>\<rparr>],
        thrown = Some TypeError\<rparr>"
  unfolding parse_doc_keyless_first detect_keyless_first
  by (simp add: example_env_fields example_parseYaml_def new_DirectiveParser_def
        find_builtin_unknown)

text \<open>
  Where the entries before it have keys, so that the loop reaches it, a pair whose
  key matches no definition allowed in the context (a key that is not a scalar
  never matches) is reported with no definition.
\<close>

lemma unknown_key_reported:
  assumes "errors (parseYaml env text) = []"
    and "contents (parseYaml env text) = Some (YAMLMap its)"
    and "its = pre @ Pair (Some kn) v # post"
    and "\<forall>it\<in>set pre. it \<noteq> Null_item \<and> (\<forall>w. it \<noteq> Pair None w)"
    and "\<forall>s r. kn = Scalar s r \<longrightarrow>
           (\<forall>d\<in>set (directives this). definedIn \<in> set (allowed d) \<longrightarrow>
              name d \<noteq> s \<and> \<not> (type d = Local \<and> s = CHR ''_'' # name d))"
  shows "DirectiveEvent \<lparr>info = None, item = Pair (Some kn) v, offset = off\<rparr>
           \<in> set (fst (detectDirectives env this text off definedIn))"
proof -
  have "directives_find definedIn (Some kn) (directives this) = Inr (None, None)"
    using assms(5) by (rule directives_find_unmatched)
  then have "DirectiveEvent \<lparr>info = None, item = Pair (Some kn) v, offset = off\<rparr>
      \<in> set (fst (detect_items (directives this) off definedIn (Pair (Some kn) v # post)))"
    by simp
  with detect_items_reaches [OF assms(4)]
  have "DirectiveEvent \<lparr>info = None, item = Pair (Some kn) v, offset = off\<rparr>
      \<in> set (fst (detect_items (directives this) off definedIn its))"
    unfolding assms(3) by blast
  then show ?thesis
    using assms(1,2) by (simp add: detectDirectives_def)
qed

lemma unknown_key_reported_example:
  "DirectiveEvent
     \<lparr>info = None,
      item = Pair (Some (Scalar ''customUnknownKey'' (12, 28))) (Some (Scalar ''1'' (30, 31))),
      offset = 5\<rparr>
     \<in> set (fst (detectDirectives example_env new_DirectiveParser
                   ''theme: gaia\<newline>customUnknownKey: 1'' 5 Comment))
   \<and> emitted (parse example_env new_DirectiveParser doc_unknown) ! 3
     = DirectiveEvent
         \<lparr>info = None,
          item = Pair (Some (Scalar ''customUnknownKey'' (12, 28))) (Some (Scalar ''1'' (30, 31))),
          offset = 5\<rparr>"
proof -
  let ?text = "''theme: gaia\<newline>customUnknownKey: 1''"
  let ?pre = "[Pair (Some (Scalar ''theme'' (0, 5))) (Some (Scalar ''gaia'' (7, 11)))]"
  let ?kn = "Scalar ''customUnknownKey'' (12, 28)"
  have e: "errors (parseYaml example_env ?text) = []"
    by (simp add: example_env_fields example_parseYaml_def)
  have c: "contents (parseYaml example_env ?text) = Some (YAMLMap
      (?pre @ Pair (Some ?kn) (Some (Scalar ''1'' (30, 31))) # []))"
    by (simp add: example_env_fields example_parseYaml_def)
  have p: "\<forall>it\<in>set ?pre. it \<noteq> Null_item \<and> (\<forall>w. it \<noteq> Pair None w)"
    by simp
  have u: "\<forall>s r. ?kn = Scalar s r \<longrightarrow>
           (\<forall>d\<in>set (directives new_DirectiveParser). Comment \<in> set (allowed d) \<longrightarrow>
              name d \<noteq> s \<and> \<not> (type d = Local \<and> s = CHR ''_'' # name d))"
    by (simp add: new_DirectiveParser_def builtinDirectives_def)
  have ev: "emitted (parse example_env new_DirectiveParser doc_unknown) ! 3
     = DirectiveEvent
         \<lparr>info = None,
          item = Pair (Some ?kn) (Some (Scalar ''1'' (30, 31))),
          offset = 5\<rparr>"
    unfolding parse_doc_unknown by simp
  from unknown_key_reported [OF e c refl p u, of 5] ev show ?thesis by simp
qed

text \<open>
  C10. Claimed: the scan returns normally on every document. A pair with an empty
  key has a null key node; reading \<^verbatim>\<open>item.key.value\<close> then throws. For the
  comment \<^verbatim>\<open><!-- : gaia -->\<close> the scan emits the start and the comment event and
  ends with a TypeError, without the end event.
\<close>

theorem empty_key_throws:
  "contents (parseYaml example_env '': gaia'')
     = Some (YAMLMap [Pair None (Some (Scalar ''gaia'' (2, 6)))])
   \<and> parse example_env new_DirectiveParser doc_empty_key
     = \<lparr>emitted =
          [StartParse doc_empty_key,
           CommentEvent \<lparr>body = ''<!-- : gaia -->'',
                         range = \<lparr>range_start = 0, range_end = 15\<rparr>\<rparr>],
        thrown = Some TypeError\<rparr>"
  unfolding parse_doc_empty_key by (simp add: example_env_fields example_parseYaml_def)

section \<open>Trimming and the offsets of comment directives\<close>

text \<open>
  The first replacement removes exactly the longest run of \<^verbatim>\<open>-\<close> at the start
  and the longest run of white space behind it: what follows the removed dashes
  does not begin with \<^verbatim>\<open>-\<close>, and what is left does not begin with white space.
\<close>

lemma replace_leading_exact:
  "\<exists>dashes spaces. s = dashes @ spaces @ replace_leading s
     \<and> (\<forall>x\<in>set dashes. x = CHR ''-'') \<and> (\<forall>x\<in>set spaces. is_space x)
     \<and> (spaces @ replace_leading s = [] \<or> hd (spaces @ replace_leading s) \<noteq> CHR ''-'')
     \<and> (replace_leading s = [] \<or> \<not> is_space (hd (replace_leading s)))
     \<and> length s - length (replace_leading s) = length dashes + length spaces"
proof (intro exI conjI)
  let ?a = "takeWhile is_dash s"
  let ?b = "takeWhile is_space (dropWhile is_dash s)"
  show "s = ?a @ ?b @ replace_leading s"
    by (simp add: replace_leading_def)
  show "\<forall>x\<in>set ?a. x = CHR ''-''"
    by (auto dest: set_takeWhileD simp: is_dash_def)
  show "\<forall>x\<in>set ?b. is_space x"
    by (auto dest: set_takeWhileD)
  have rest: "?b @ replace_leading s = dropWhile is_dash s"
    by (simp add: replace_leading_def)
  have "dropWhile is_dash s = [] \<or> \<not> is_dash (hd (dropWhile is_dash s))"
    using hd_dropWhile [of is_dash s] by blast
  then show "?b @ replace_leading s = [] \<or> hd (?b @ replace_leading s) \<noteq> CHR ''-''"
    unfolding rest by (simp add: is_dash_def)
  show "replace_leading s = [] \<or> \<not> is_space (hd (replace_leading s))"
    unfolding replace_leading_def
    using hd_dropWhile [of is_space "dropWhile is_dash s"] by blast
  have "length s = length ?a + (length ?b + length (replace_leading s))"
    unfolding replace_leading_def length_append [symmetric] by simp
  then show "length s - length (replace_leading s) = length ?a + length ?b"
    by simp
qed

text \<open>
  The second replacement removes exactly the longest run of \<^verbatim>\<open>-\<close> at the end and
  the longest run of white space before it.
\<close>

lemma replace_trailing_exact:
  "\<exists>spaces dashes. s = replace_trailing s @ spaces @ dashes
     \<and> (\<forall>x\<in>set spaces. is_space x) \<and> (\<forall>x\<in>set dashes. x = CHR ''-'')
     \<and> (replace_trailing s @ spaces = [] \<or> last (replace_trailing s @ spaces) \<noteq> CHR ''-'')
     \<and> (replace_trailing s = [] \<or> \<not> is_space (last (replace_trailing s)))"
proof (intro exI conjI)
  let ?r = "rev s"
  let ?a = "takeWhile is_dash ?r"
  let ?b = "takeWhile is_space (dropWhile is_dash ?r)"
  let ?c = "dropWhile is_space (dropWhile is_dash ?r)"
  have abc: "?a @ ?b @ ?c = ?r" by simp
  have "rev ?r = rev (?a @ ?b @ ?c)" by (simp only: abc)
  then have "s = rev ?c @ rev ?b @ rev ?a"
    by (simp only: rev_rev_ident rev_append append_assoc)
  then show "s = replace_trailing s @ rev ?b @ rev ?a"
    by (simp only: replace_trailing_def)
  show "\<forall>x\<in>set (rev ?b). is_space x"
    by (auto dest: set_takeWhileD)
  show "\<forall>x\<in>set (rev ?a). x = CHR ''-''"
    by (auto dest: set_takeWhileD simp: is_dash_def)
  have front: "replace_trailing s @ rev ?b = rev (dropWhile is_dash ?r)"
    unfolding replace_trailing_def rev_append [symmetric] by simp
  have "dropWhile is_dash ?r = [] \<or> \<not> is_dash (hd (dropWhile is_dash ?r))"
    using hd_dropWhile [of is_dash ?r] by blast
  then show "replace_trailing s @ rev ?b = []
             \<or> last (replace_trailing s @ rev ?b) \<noteq> CHR ''-''"
    unfolding front by (auto simp: is_dash_def last_rev)
  have "?c = [] \<or> \<not> is_space (hd ?c)"
    using hd_dropWhile [of is_space "dropWhile is_dash ?r"] by blast
  then show "replace_trailing s = [] \<or> \<not> is_space (last (replace_trailing s))"
    unfolding replace_trailing_def by (auto simp: last_rev)
qed

text \<open>The index and the remaining text after the front-matter section.\<close>

lemma parse_frontMatter_index:
  assumes "snd (parse_frontMatter env this doc) = (idx, markdown)"
  shows "idx = (case frontMatterRegex env doc of
                  None \<Rightarrow> 0
                | Some m \<Rightarrow>
                    if index m = 0
                    then length (fm_open m) + length (fm_body m) + length (fm_close m)
                    else 0)
         \<and> markdown = drop idx doc"
  using assms
  by (auto simp: parse_frontMatter_def Let_def split: option.splits if_splits)

text \<open>
  C2. Claimed: the event of every pair of a comment carries the offset of the
  pair's key in the document, and the trimming removes all leading and trailing
  \<^verbatim>\<open>-\<close> and white space. In the comment with the two lines \<^verbatim>\<open>theme: gaia\<close> and
  \<^verbatim>\<open>paginate: true\<close> the key \<^verbatim>\<open>paginate\<close> is at offset 12 of the trimmed text
  and 0 + 0 + 4 + 1 + 12 = 17 of the document; its event carries 5. And the inner
  text \<^verbatim>\<open> - theme: gaia \<close>, which begins with a space, keeps its \<^verbatim>\<open>-\<close>.
\<close>

theorem comment_second_key_counterexample:
  "emitted (parse example_env new_DirectiveParser doc_two_keys) ! 3
     = DirectiveEvent
         \<lparr>info = directive_info (Some (builtinDirectives ! 4), None),
          item = Pair (Some (Scalar ''paginate'' (12, 20))) (Some (Scalar ''true'' (22, 26))),
          offset = 5\<rparr>
   \<and> take 8 (drop (0 + 0 + 4 + 1 + 12) doc_two_keys) = ''paginate''
   \<and> (0::nat) + 0 + 4 + 1 + 12 = 17
   \<and> replace_trailing (replace_leading '' - theme: gaia '') = ''- theme: gaia''"
  unfolding parse_doc_two_keys
  by (simp add: doc_two_keys_def replace_leading_def replace_trailing_def is_dash_def
        is_space_def)

text \<open>
  C2, as the parser is written. Let \<^verbatim>\<open>c\<close> be a comment of an HTML node \<^verbatim>\<open>n\<close> found
  in the text that remains after the front-matter, \<^verbatim>\<open>idx\<close> being the length of
  the front-matter block (0 without one). Every directive event of the comment
  carries one and the same offset: \<^verbatim>\<open>idx\<close>, plus the start of the node, plus the
  start of the comment within the node, plus 4, plus the number of characters
  removed on the left. The offset of the pair within the trimmed text is not
  added; the event carries the pair itself, taken from the parse of the trimmed
  text. What is removed on the left is exactly the longest run of \<^verbatim>\<open>-\<close> followed
  by the longest run of white space behind it, and on the right the longest run of
  \<^verbatim>\<open>-\<close> at the end with the longest run of white space before it. When the scan
  returns normally, the event is among the emitted events.
\<close>

theorem comment_directive_offset:
  assumes "snd (parse_frontMatter env this doc) = (idx, markdown)"
    and "n \<in> set (parseMd env markdown)"
    and "c \<in> set (parseHtml env (node_value n))"
    and "ev \<in> set (tl (fst (visit_comment env this doc idx n c)))"
  shows "(idx = (case frontMatterRegex env doc of
                   None \<Rightarrow> 0
                 | Some m \<Rightarrow>
                     if index m = 0
                     then length (fm_open m) + length (fm_body m) + length (fm_close m)
                     else 0)
          \<and> markdown = drop idx doc)
       \<and> (\<exists>i k v its. ev = DirectiveEvent
              \<lparr>info = i, item = Pair k v,
               offset = idx + start_offset n + start_offset c + 4
                  + (length (node_value c) - length (replace_leading (node_value c)))\<rparr>
            \<and> contents_items (contents (parseYaml env
                  (replace_trailing (replace_leading (node_value c))))) = Some its
            \<and> Pair k v \<in> set its)
       \<and> (\<exists>dashes spaces.
             node_value c = dashes @ spaces @ replace_leading (node_value c)
           \<and> (\<forall>x\<in>set dashes. x = CHR ''-'') \<and> (\<forall>x\<in>set spaces. is_space x)
           \<and> (spaces @ replace_leading (node_value c) = []
                \<or> hd (spaces @ replace_leading (node_value c)) \<noteq> CHR ''-'')
           \<and> (replace_leading (node_value c) = []
                \<or> \<not> is_space (hd (replace_leading (node_value c))))
           \<and> length (node_value c) - length (replace_leading (node_value c))
               = length dashes + length spaces)
       \<and> (\<exists>spaces dashes.
             replace_leading (node_value c)
               = replace_trailing (replace_leading (node_value c)) @ spaces @ dashes
           \<and> (\<forall>x\<in>set spaces. is_space x) \<and> (\<forall>x\<in>set dashes. x = CHR ''-'')
           \<and> (replace_trailing (replace_leading (node_value c)) @ spaces = []
                \<or> last (replace_trailing (replace_leading (node_value c)) @ spaces)
                     \<noteq> CHR ''-'')
           \<and> (replace_trailing (replace_leading (node_value c)) = []
                \<or> \<not> is_space (last (replace_trailing (replace_leading (node_value c))))))
       \<and> (\<forall>x. is_space x \<longleftrightarrow>
             x \<in> {CHR 0x09, CHR 0x0A, CHR 0x0B, CHR 0x0C, CHR 0x0D, CHR 0x20, CHR 0xA0})
       \<and> (thrown (parse env this doc) = None
            \<longrightarrow> ev \<in> set (emitted (parse env this doc)))"
proof (intro conjI)
  let ?off = "idx + start_offset n + start_offset c + 4
                + (length (node_value c) - length (replace_leading (node_value c)))"
  let ?text = "replace_trailing (replace_leading (node_value c))"
  from parse_frontMatter_index [OF assms(1)]
  show "idx = (case frontMatterRegex env doc of
                   None \<Rightarrow> 0
                 | Some m \<Rightarrow>
                     if index m = 0
                     then length (fm_open m) + length (fm_body m) + length (fm_close m)
                     else 0)"
    and "markdown = drop idx doc"
    by simp_all
  have tl_eq: "tl (fst (visit_comment env this doc idx n c))
                 = fst (detectDirectives env this ?text ?off Comment)"
    by (simp add: visit_comment_def Let_def)
  from assms(4) tl_eq have "ev \<in> set (fst (detectDirectives env this ?text ?off Comment))"
    by simp
  from detectDirectives_event [OF this]
  show "\<exists>i k v its. ev = DirectiveEvent \<lparr>info = i, item = Pair k v, offset = ?off\<rparr>
            \<and> contents_items (contents (parseYaml env ?text)) = Some its
            \<and> Pair k v \<in> set its"
    by blast
  show "\<exists>dashes spaces.
             node_value c = dashes @ spaces @ replace_leading (node_value c)
           \<and> (\<forall>x\<in>set dashes. x = CHR ''-'') \<and> (\<forall>x\<in>set spaces. is_space x)
           \<and> (spaces @ replace_leading (node_value c) = []
                \<or> hd (spaces @ replace_leading (node_value c)) \<noteq> CHR ''-'')
           \<and> (replace_leading (node_value c) = []
                \<or> \<not> is_space (hd (replace_leading (node_value c))))
           \<and> length (node_value c) - length (replace_leading (node_value c))
               = length dashes + length spaces"
    by (rule replace_leading_exact)
  show "\<exists>spaces dashes.
             replace_leading (node_value c)
               = replace_trailing (replace_leading (node_value c)) @ spaces @ dashes
           \<and> (\<forall>x\<in>set spaces. is_space x) \<and> (\<forall>x\<in>set dashes. x = CHR ''-'')
           \<and> (replace_trailing (replace_leading (node_value c)) @ spaces = []
                \<or> last (replace_trailing (replace_leading (node_value c)) @ spaces)
                     \<noteq> CHR ''-'')
           \<and> (replace_trailing (replace_leading (node_value c)) = []
                \<or> \<not> is_space (last (replace_trailing (replace_leading (node_value c)))))"
    by (rule replace_trailing_exact)
  show "\<forall>x. is_space x \<longleftrightarrow>
             x \<in> {CHR 0x09, CHR 0x0A, CHR 0x0B, CHR 0x0C, CHR 0x0D, CHR 0x20, CHR 0xA0}"
    by (auto simp: is_space_def)
  show "thrown (parse env this doc) = None \<longrightarrow> ev \<in> set (emitted (parse env this doc))"
  proof
    assume ok: "thrown (parse env this doc) = None"
    have "ev \<in> set (fst (visit_comment env this doc idx n c))"
      using assms(4) by (simp add: visit_comment_def Let_def)
    with parse_emits_comment [OF ok assms(1-3)]
    show "ev \<in> set (emitted (parse env this doc))" by blast
  qed
qed

theorem comment_directive_offset_witness:
  "DirectiveEvent
     \<lparr>info = directive_info (Some (builtinDirectives ! 1), None),
      item = Pair (Some (Scalar ''theme'' (0, 5))) (Some (Scalar ''gaia'' (7, 11))),
      offset = 6\<rparr>
     \<in> set (emitted (parse example_env new_DirectiveParser doc_dashes))
   \<and> doc_dashes = ''<!--- theme: gaia ---->''
   \<and> take 5 (drop 6 doc_dashes) = ''theme''
   \<and> replace_leading ''- theme: gaia --'' = ''theme: gaia --''
   \<and> replace_trailing ''theme: gaia --'' = ''theme: gaia''
   \<and> DirectiveEvent
     \<lparr>info = directive_info (Some (builtinDirectives ! 4), None),
      item = Pair (Some (Scalar ''paginate'' (0, 8))) (Some (Scalar ''true'' (10, 14))),
      offset = 34\<rparr>
     \<in> set (emitted (parse example_env new_DirectiveParser doc_scenario))
   \<and> snd (parse_frontMatter example_env new_DirectiveParser doc_scenario)
     = (20, ''# Slide\<newline>\<newline><!-- paginate: true -->\<newline>'')
   \<and> 20 + 9 + 0 + 4 + (length '' paginate: true '' - length ''paginate: true '') = (34::nat)
   \<and> take 8 (drop 34 doc_scenario) = ''paginate''"
proof -
  let ?n = "\<lparr>node_value = doc_dashes, start_offset = 0, end_offset = 23\<rparr>"
  let ?c = "\<lparr>node_value = ''- theme: gaia --'', start_offset = 0, end_offset = 23\<rparr>"
  let ?ev = "DirectiveEvent
     \<lparr>info = directive_info (Some (builtinDirectives ! 1), None),
      item = Pair (Some (Scalar ''theme'' (0, 5))) (Some (Scalar ''gaia'' (7, 11))),
      offset = 6\<rparr>"
  let ?n' = "\<lparr>node_value = ''<!-- paginate: true -->'', start_offset = 9, end_offset = 32\<rparr>"
  let ?c' = "\<lparr>node_value = '' paginate: true '', start_offset = 0, end_offset = 23\<rparr>"
  let ?ev' = "DirectiveEvent
     \<lparr>info = directive_info (Some (builtinDirectives ! 4), None),
      item = Pair (Some (Scalar ''paginate'' (0, 8))) (Some (Scalar ''true'' (10, 14))),
      offset = 34\<rparr>"
  let ?rest = "''# Slide\<newline>\<newline><!-- paginate: true -->\<newline>''"
  have h1: "thrown (parse example_env new_DirectiveParser doc_dashes) = None"
    unfolding parse_doc_dashes by simp
  have h2: "snd (parse_frontMatter example_env new_DirectiveParser doc_dashes)
              = (0, doc_dashes)"
    by (subst no_front_matter) (simp_all add: doc_dashes_def doc_front_def doc_scenario_def)
  have h3: "?n \<in> set (parseMd example_env doc_dashes)"
    by (simp add: example_env_fields example_parseMd_def example_docs)
  have h4: "?c \<in> set (parseHtml example_env (node_value ?n))"
    by (simp add: example_env_fields example_parseHtml_def example_docs)
  have h5: "?ev \<in> set (tl (fst (visit_comment example_env new_DirectiveParser doc_dashes
                                    0 ?n ?c)))"
    by (simp add: comment_defs doc_dashes_def detect_examples)
  have g1: "thrown (parse example_env new_DirectiveParser doc_scenario) = None"
    unfolding parse_doc_scenario by simp
  have g2: "snd (parse_frontMatter example_env new_DirectiveParser doc_scenario)
              = (20, ?rest)"
    unfolding frontMatter_doc_scenario by simp
  have g3: "?n' \<in> set (parseMd example_env ?rest)"
    by (simp add: example_env_fields example_parseMd_def)
  have g4: "?c' \<in> set (parseHtml example_env (node_value ?n'))"
    by (simp add: example_env_fields example_parseHtml_def)
  have g5: "?ev' \<in> set (tl (fst (visit_comment example_env new_DirectiveParser doc_scenario
                                     20 ?n' ?c')))"
    unfolding comment_doc_scenario by simp
  have trims: "replace_leading ''- theme: gaia --'' = ''theme: gaia --''"
      "replace_trailing ''theme: gaia --'' = ''theme: gaia''"
    by (simp_all add: replace_leading_def replace_trailing_def is_dash_def is_space_def)
  have shape: "doc_dashes = ''<!--- theme: gaia ---->''" "take 5 (drop 6 doc_dashes) = ''theme''"
    by (simp_all add: doc_dashes_def)
  have place: "20 + 9 + 0 + 4 + (length '' paginate: true '' - length ''paginate: true '')
                 = (34::nat)"
      "take 8 (drop 34 doc_scenario) = ''paginate''"
    by (simp_all add: doc_scenario_def)
  from comment_directive_offset [OF h2 h3 h4 h5] h1
  have e1: "?ev \<in> set (emitted (parse example_env new_DirectiveParser doc_dashes))"
    by blast
  from comment_directive_offset [OF g2 g3 g4 g5] g1
  have e2: "?ev' \<in> set (emitted (parse example_env new_DirectiveParser doc_scenario))"
    by blast
  from e1 e2 trims shape place g2 show ?thesis by blast
qed

section \<open>A registry with two definitions of one name\<close>

lemma directives_find_none_scoped:
  "directives_find definedIn k ds = Inr (None, sc) \<Longrightarrow> sc = None"
  by (induction ds) (auto split: sum.splits if_splits)

lemma directives_find_append:
  "directives_find definedIn k (xs @ ys) =
     (case directives_find definedIn k xs of
        Inl e \<Rightarrow> Inl e
      | Inr (None, sc) \<Rightarrow> directives_find definedIn k ys
      | Inr (Some d, sc) \<Rightarrow> Inr (Some d, sc))"
  by (induction xs) (auto split: sum.splits option.splits)

lemma directives_find_none_member:
  assumes "directives_find definedIn k ds = Inr (None, sc)"
    and "e \<in> set ds" and "definedIn \<in> set (allowed e)"
  shows "\<exists>v. key_value k = Inr v \<and> v \<noteq> Some (name e)
           \<and> \<not> (type e = Local \<and> v = Some (CHR ''_'' # name e))"
  using assms by (induction ds) (auto split: sum.splits if_splits)

lemma directives_find_shadowed:
  assumes "d' \<in> set ds" and "name d' = name d" and "type d' = type d"
    and "set (allowed d) \<subseteq> set (allowed d')"
  shows "directives_find definedIn k (ds @ [d]) = directives_find definedIn k ds"
proof (cases "directives_find definedIn k ds")
  case (Inl e)
  then show ?thesis by (simp add: directives_find_append)
next
  case (Inr found)
  obtain x sc where found: "found = (x, sc)" by (cases found)
  show ?thesis
  proof (cases x)
    case (Some y)
    with Inr found show ?thesis by (simp add: directives_find_append)
  next
    case None
    with Inr found have none: "directives_find definedIn k ds = Inr (None, sc)" by simp
    then have sc: "sc = None" by (rule directives_find_none_scoped)
    have "directives_find definedIn k [d] = Inr (None, None)"
    proof (cases "definedIn \<in> set (allowed d)")
      case False
      then show ?thesis by simp
    next
      case True
      with assms(4) have "definedIn \<in> set (allowed d')" by blast
      from directives_find_none_member [OF none assms(1) this] assms(2,3) True
      show ?thesis by auto
    qed
    with none sc show ?thesis by (simp add: directives_find_append)
  qed
qed

lemma detect_items_shadowed:
  assumes "\<And>k. directives_find definedIn k ds' = directives_find definedIn k ds"
  shows "detect_items ds' off definedIn its = detect_items ds off definedIn its"
proof (induction its)
  case Nil
  show ?case by simp
next
  case (Cons it its)
  then show ?case by (cases it) (simp_all add: assms split: sum.splits)
qed

text \<open>
  C6. Claimed: adding a definition whose name is already in the registry fails
  with a DuplicateName error. The parser has no registration operation and no
  such error: its registry is the array field \<^verbatim>\<open>directives\<close>, and with a second
  definition named \<^verbatim>\<open>theme\<close> appended to it the names are no longer unique and
  the scan runs as usual.
\<close>

theorem duplicate_name_accepted_counterexample:
  "map name (directives new_DirectiveParser @ [custom_theme])
     = [''marp'', ''theme'', ''style'', ''headingDivider'', ''paginate'', ''header'',
        ''footer'', ''class'', ''backgroundColor'', ''backgroundImage'',
        ''backgroundPosition'', ''backgroundRepeat'', ''backgroundSize'', ''color'',
        ''size'', ''title'', ''description'', ''url'', ''image'', ''theme'']
   \<and> \<not> distinct (map name (directives new_DirectiveParser @ [custom_theme]))
   \<and> thrown (parse example_env
        \<lparr>directives = directives new_DirectiveParser @ [custom_theme]\<rparr> doc_note) = None"
proof -
  let ?p = "\<lparr>directives = directives new_DirectiveParser @ [custom_theme]\<rparr>"
  let ?n = "\<lparr>node_value = doc_note, start_offset = 0, end_offset = 28\<rparr>"
  let ?c = "\<lparr>node_value = '' this is just a note '', start_offset = 0, end_offset = 28\<rparr>"
  have names: "map name (directives ?p)
     = [''marp'', ''theme'', ''style'', ''headingDivider'', ''paginate'', ''header'',
        ''footer'', ''class'', ''backgroundColor'', ''backgroundImage'',
        ''backgroundPosition'', ''backgroundRepeat'', ''backgroundSize'', ''color'',
        ''size'', ''title'', ''description'', ''url'', ''image'', ''theme'']"
    by (simp add: new_DirectiveParser_def builtinDirectives_def custom_theme_def)
  have dup: "\<not> distinct (map name (directives ?p))"
    unfolding names by simp
  have fm: "parse_frontMatter example_env ?p doc_note = (([], None), 0, doc_note)"
    by (rule no_front_matter) (simp_all add: doc_note_def doc_front_def doc_scenario_def)
  have md: "parseMd example_env doc_note = [?n]"
    by (simp add: example_env_fields example_parseMd_def example_docs)
  have html: "parseHtml example_env (node_value ?n) = [?c]"
    by (simp add: example_env_fields example_parseHtml_def example_docs)
  have cm: "visit_comment example_env ?p doc_note 0 ?n ?c
    = ([CommentEvent \<lparr>body = ''<!-- this is just a note -->'',
                      range = \<lparr>range_start = 0, range_end = 28\<rparr>\<rparr>], None)"
    by (simp add: comment_defs doc_note_def detectDirectives_def example_env_fields
          example_parseYaml_def)
  from parse_single_comment [OF fm md html cm]
  have "thrown (parse example_env ?p doc_note) = None" by simp
  with names dup show ?thesis by simp
qed

text \<open>
  C6, as the parser is written: a definition appended to the registry with the name
  of an earlier one does not override it. When the earlier definition has the same
  type and allows every context the appended one allows, every document is scanned
  exactly as without the appended definition.
\<close>

theorem appended_duplicate_shadowed:
  assumes "d' \<in> set (directives this)" and "name d' = name d" and "type d' = type d"
    and "set (allowed d) \<subseteq> set (allowed d')"
  shows "parse env (this\<lparr>directives := directives this @ [d]\<rparr>) doc = parse env this doc"
proof -
  let ?p' = "this\<lparr>directives := directives this @ [d]\<rparr>"
  have same_find: "directives_find definedIn k (directives this @ [d])
                = directives_find definedIn k (directives this)" for definedIn k
    using assms by (rule directives_find_shadowed)
  have same_detect: "detectDirectives env ?p' block off definedIn
                  = detectDirectives env this block off definedIn" for block off definedIn
    by (simp add: detectDirectives_def Let_def detect_items_shadowed [OF same_find]
          split: option.splits)
  have fm: "parse_frontMatter env ?p' doc = parse_frontMatter env this doc"
    by (simp add: parse_frontMatter_def Let_def same_detect split: option.splits)
  have "visit_comment env ?p' doc = visit_comment env this doc"
    by (intro ext) (simp add: visit_comment_def Let_def same_detect)
  then have cm: "parse_comments env ?p' doc idx markdown
                   = parse_comments env this doc idx markdown" for idx markdown
    by (simp add: parse_comments_def)
  show ?thesis by (simp add: parse_def fm cm)
qed

theorem appended_duplicate_shadowed_witness:
  "parse example_env
     (new_DirectiveParser\<lparr>directives := directives new_DirectiveParser @ [custom_theme]\<rparr>)
     doc_dashes
   = \<lparr>emitted =
        [StartParse doc_dashes,
         CommentEvent \<lparr>body = ''<!--- theme: gaia ---->'',
                       range = \<lparr>range_start = 0, range_end = 23\<rparr>\<rparr>,
         DirectiveEvent
           \<lparr>info = directive_info (Some (builtinDirectives ! 1), None),
            item = Pair (Some (Scalar ''theme'' (0, 5))) (Some (Scalar ''gaia'' (7, 11))),
            offset = 6\<rparr>,
         EndParse doc_dashes],
      thrown = None\<rparr>
   \<and> name (builtinDirectives ! 1) = name custom_theme
   \<and> builtinDirectives ! 1 \<noteq> custom_theme"
proof -
  have h1: "builtinDirectives ! 1 \<in> set (directives new_DirectiveParser)"
    by (simp add: new_DirectiveParser_def builtinDirectives_def)
  have h2: "name (builtinDirectives ! 1) = name custom_theme"
    and h3: "type (builtinDirectives ! 1) = type custom_theme"
    and h4: "set (allowed custom_theme) \<subseteq> set (allowed (builtinDirectives ! 1))"
    by (simp_all add: builtinDirectives_def custom_theme_def)
  have ne: "providedBy (builtinDirectives ! 1) \<noteq> providedBy custom_theme"
    by (simp add: builtinDirectives_def custom_theme_def createDirectiveInfo_def
          DirectiveInfoOmit.extend_def)
  then have "builtinDirectives ! 1 \<noteq> custom_theme" by auto
  with appended_duplicate_shadowed [OF h1 h2 h3 h4, of example_env doc_dashes]
       parse_doc_dashes h2
  show ?thesis by simp
qed

end
